theory Spec2Isabelle
  imports Complex_Main "HOL-Library.Product_Lexorder" "HOL-Library.List_Lexorder"
    "HOL-Library.Char_ord"
begin

section \<open>Data model\<close>

text \<open>
  The controller \<^verbatim>\<open>sales_order.py\<close> works on documents of a document store. A date is
  the triple (year, month, day); Python compares \<^verbatim>\<open>datetime.date\<close> values in exactly
  this lexicographic order. Quantities and amounts are Python floats in the source; the
  model computes with exact rationals, so the theorems below are about the arithmetic
  the code writes down, not about rounding.
\<close>

type_synonym date = "nat \<times> nat \<times> nat"

datatype error =
    DoesNotExistError
  | TypeError
  | ValueError
  | KeyError
  | ZeroDivisionError
  | ValidationError string
  | Wrapped string error

text \<open>
  The value of a date field (\<^verbatim>\<open>DF.Date | None\<close>). A document built from the request
  carries its dates as strings, a document loaded from the store carries
  \<^verbatim>\<open>datetime.date\<close> objects. \<open>NoDate\<close> is \<^verbatim>\<open>None\<close> or the empty string;
  \<open>DateString r\<close> is a non-empty string, with the date \<^verbatim>\<open>strptime\<close> reads from it
  in the format \<^verbatim>\<open>'%Y-%m-%d'\<close>, or \<open>None\<close> when the string is no such date;
  \<open>DateObject x\<close> is a date object.
\<close>

datatype date_value = NoDate | DateString "date option" | DateObject date

text \<open>
  The value of a \<^verbatim>\<open>DF.Data | None\<close> field that is used as a number: \<open>Null\<close> is
  \<^verbatim>\<open>None\<close>; \<open>Data r\<close> is a string, with the number \<^verbatim>\<open>float\<close> reads from it, or
  \<open>None\<close> when the string (the empty one included) is no number.
\<close>

datatype data_value = Null | Data "rat option"

text \<open>The header fields of a Sales Order that the modelled functions read or write.\<close>

record sales_order =
  docstatus :: nat
  status :: string
  previous_order_id :: "string option"
  start_date :: date_value
  end_date :: date_value
  rounded_total :: rat
  advance_paid :: rat
  balance_amount :: rat
  payment_status :: string
  security_deposit :: data_value
  paid_security_deposite_amount :: rat
  outstanding_security_deposit_amount :: rat
  security_deposit_status :: string
  order_submitted_date :: string

text \<open>
  A row of the child table \<^verbatim>\<open>Sales Order Item\<close>. \<^verbatim>\<open>parent\<close> is the name of the order
  the row belongs to; \<^verbatim>\<open>delivered_by_supplier\<close> is a check box (0 or 1);
  \<^verbatim>\<open>delivery_date\<close> is held as the string \<^verbatim>\<open>cstr\<close> makes of it.
\<close>

record so_item =
  name :: string
  parent :: string
  item_code :: string
  qty :: rat
  rate :: rat
  base_rate :: rat
  amount :: rat
  base_amount :: rat
  conversion_factor :: rat
  delivered_qty :: rat
  picked_qty :: rat
  stock_reserved_qty :: rat
  delivered_by_supplier :: nat
  delivery_date :: string
  child_status :: string
  replaced_datetime :: string
  old_item_code :: string
  submitted_date :: string

text \<open>The Item master: the status of the physical device and the replacement reason.\<close>

record item =
  item_status :: string
  replaced_reason :: "string option"

record replaced_item =
  ri_master_order_id :: string
  ri_sales_order_id :: string
  ri_replaced_datetime :: string
  ri_old_item :: string
  ri_new_item :: string
  ri_reason :: "string option"

record journal_entry =
  sales_order_id :: string
  je_master_order_id :: string
  security_deposite_type :: string
  total_debit :: rat

record payment_entry =
  reference_name :: string
  pe_master_order_id :: string
  paid_amount :: rat

text \<open>
  A row of the child table \<^verbatim>\<open>Packed Item\<close>: a component of a product bundle line;
  \<^verbatim>\<open>parent_detail_docname\<close> names the bundle's row in \<^verbatim>\<open>Sales Order Item\<close>.
\<close>

record packed_item =
  pi_name :: string
  pi_parent :: string
  parent_detail_docname :: string
  pi_item_code :: string
  pi_qty :: rat
  pi_rate :: rat
  pi_conversion_factor :: rat

text \<open>
  The document store: Sales Orders by name, the rows of the child table in the order
  in which a query returns them, Items by item code, and the documents the rental
  operations create. The names of the rows of a child table are its primary key.
\<close>

record db =
  orders :: "string \<rightharpoonup> sales_order"
  order_items :: "so_item list"
  packed_items :: "packed_item list"
  items :: "string \<rightharpoonup> item"
  replaced_items :: "replaced_item list"
  journal_entries :: "journal_entry list"
  payment_entries :: "payment_entry list"

text \<open>
  \<^verbatim>\<open>frappe.get_all("Sales Order Item", filters={"parent": docname})\<close>: the rows of one
  order.
\<close>

definition get_all_items :: "db \<Rightarrow> string \<Rightarrow> so_item list" where
  "get_all_items d docname = filter (\<lambda>r. parent r = docname) (order_items d)"

text \<open>
  \<^verbatim>\<open>frappe.get_doc("Sales Order Item", name)\<close>, a change of the row and \<^verbatim>\<open>save()\<close>:
  the row of that name is replaced in the table; \<^verbatim>\<open>None\<close> when no row has the name
  (\<^verbatim>\<open>get_doc\<close> raises). Row names are the table's primary key.
\<close>

fun update_row :: "string \<Rightarrow> (so_item \<Rightarrow> so_item) \<Rightarrow> so_item list \<Rightarrow> so_item list option" where
  "update_row n f [] = None"
| "update_row n f (r # rs) =
     (if name r = n then Some (f r # rs)
      else (case update_row n f rs of None \<Rightarrow> None | Some rs' \<Rightarrow> Some (r # rs')))"

text \<open>Python truthiness of an optional string field: \<^verbatim>\<open>None\<close> and \<^verbatim>\<open>""\<close> are false.\<close>

fun truthy :: "string option \<Rightarrow> bool" where
  "truthy None = False"
| "truthy (Some s) = (s \<noteq> [])"

section \<open>Renewal: the overlap check run before submission\<close>

text \<open>
  \<^verbatim>\<open>datetime.strptime(value, '%Y-%m-%d').date()\<close> on a date field: a
  \<^verbatim>\<open>datetime.date\<close> object (and \<^verbatim>\<open>None\<close>) is no string and raises a \<^verbatim>\<open>TypeError\<close>, a
  string that is no date in this format raises a \<^verbatim>\<open>ValueError\<close>.
\<close>

fun strptime :: "date_value \<Rightarrow> error + date" where
  "strptime NoDate = Inl TypeError"
| "strptime (DateString None) = Inl ValueError"
| "strptime (DateString (Some x)) = Inr x"
| "strptime (DateObject x) = Inl TypeError"

text \<open>Python truthiness of a date field: \<^verbatim>\<open>None\<close> and \<^verbatim>\<open>""\<close> are false.\<close>

fun date_truthy :: "date_value \<Rightarrow> bool" where
  "date_truthy NoDate = False"
| "date_truthy (DateString _) = True"
| "date_truthy (DateObject _) = True"

text \<open>
  \<^verbatim>\<open>check_overlap(self)\<close>. \<^verbatim>\<open>frappe.get_doc\<close> raises when the predecessor does not
  exist; \<^verbatim>\<open>ValidationError\<close> is what \<^verbatim>\<open>frappe.throw\<close> raises with its message, and
  \<^verbatim>\<open>Wrapped\<close> is a \<^verbatim>\<open>frappe.throw\<close> of an exception handler whose message is a fixed
  prefix followed by the text of the exception it caught. The order's own two dates are
  parsed with \<^verbatim>\<open>strptime\<close>, the start date first. The predecessor's dates are compared as
  they are: comparing the parsed date with anything but a date (\<^verbatim>\<open>None\<close>, a string)
  raises a \<^verbatim>\<open>TypeError\<close>, and the second comparison is evaluated only when the first
  one is true.
\<close>

definition check_overlap :: "db \<Rightarrow> sales_order \<Rightarrow> error + bool" where
  "check_overlap d self =
     (case Option.bind (previous_order_id self) (orders d) of
        None \<Rightarrow> Inl DoesNotExistError
      | Some previous_order \<Rightarrow>
          if date_truthy (start_date self) \<and> date_truthy (end_date self) then
            (case strptime (start_date self) of
               Inl e \<Rightarrow> Inl e
             | Inr start \<Rightarrow>
                 (case strptime (end_date self) of
                    Inl e \<Rightarrow> Inl e
                  | Inr end' \<Rightarrow>
                      (case end_date previous_order of
                         DateObject prev_end \<Rightarrow>
                           if start \<le> prev_end then
                             (case start_date previous_order of
                                DateObject prev_start \<Rightarrow> Inr (end' \<ge> prev_start)
                              | _ \<Rightarrow> Inl TypeError)
                           else Inr False
                       | _ \<Rightarrow> Inl TypeError)))
          else Inr False)"

text \<open>\<^verbatim>\<open>SalesOrder.before_submit\<close>: throws when \<^verbatim>\<open>check_overlap\<close> returns true.\<close>

definition before_submit :: "db \<Rightarrow> sales_order \<Rightarrow> error + unit" where
  "before_submit d self =
     (if truthy (previous_order_id self) then
        (case check_overlap d self of
           Inl e \<Rightarrow> Inl e
         | Inr overlap \<Rightarrow>
             if overlap
             then Inl (ValidationError
                    ''Current start and end dates overlap with the previous order.'')
             else Inr ())
      else Inr ())"

section \<open>Rental flow: approval\<close>

text \<open>
  \<^verbatim>\<open>make_approved(docname)\<close>. The rows of the order are fetched once; the loop walks this
  list. For each row the Item is loaded (\<^verbatim>\<open>get_doc\<close> raises when it does not exist);
  an Item that is \<^verbatim>\<open>Available\<close> becomes \<^verbatim>\<open>Reserved\<close>, the row becomes \<^verbatim>\<open>Approved\<close>
  and, still inside the loop, the order becomes \<^verbatim>\<open>Approved\<close>; any other Item status
  leaves the loop with \<^verbatim>\<open>break\<close>. The handler logs an exception and raises it again.
\<close>

fun approve_loop :: "string \<Rightarrow> so_item list \<Rightarrow> db \<Rightarrow> error + db" where
  "approve_loop docname [] d = Inr d"
| "approve_loop docname (r # rs) d =
     (case items d (item_code r) of
        None \<Rightarrow> Inl DoesNotExistError
      | Some item_doc \<Rightarrow>
          if item_status item_doc = ''Available'' then
            (case update_row (name r) (\<lambda>x. x\<lparr>child_status := ''Approved''\<rparr>) (order_items d) of
               None \<Rightarrow> Inl DoesNotExistError
             | Some rows \<Rightarrow>
                 (case orders d docname of
                    None \<Rightarrow> Inl DoesNotExistError
                  | Some sales_order \<Rightarrow>
                      approve_loop docname rs
                        (d\<lparr>items := (items d)(item_code r \<mapsto> item_doc\<lparr>item_status := ''Reserved''\<rparr>),
                           order_items := rows,
                           orders := (orders d)(docname \<mapsto> sales_order\<lparr>status := ''Approved''\<rparr>)\<rparr>)))
          else Inr d)"

definition make_approved :: "string \<Rightarrow> db \<Rightarrow> error + string \<times> db" where
  "make_approved docname d =
     (case approve_loop docname (get_all_items d docname) d of
        Inl e \<Rightarrow> Inl e
      | Inr d' \<Rightarrow> Inr (''Approved Success'', d'))"

section \<open>Cancellation\<close>

text \<open>
  \<^verbatim>\<open>SalesOrder.item_status_change_cancel\<close>: every line's Item that is \<^verbatim>\<open>Rented Out\<close>
  becomes \<^verbatim>\<open>Available\<close>; the method ends with \<^verbatim>\<open>frappe.db.commit()\<close>.
\<close>

fun item_status_change_cancel :: "so_item list \<Rightarrow> (string \<rightharpoonup> item) \<Rightarrow> error + (string \<rightharpoonup> item)" where
  "item_status_change_cancel [] tab = Inr tab"
| "item_status_change_cancel (r # rs) tab =
     (case tab (item_code r) of
        None \<Rightarrow> Inl DoesNotExistError
      | Some item_doc \<Rightarrow>
          item_status_change_cancel rs
            (if item_status item_doc = ''Rented Out''
             then tab(item_code r \<mapsto> item_doc\<lparr>item_status := ''Available''\<rparr>)
             else tab))"

text \<open>
  \<^verbatim>\<open>SalesOrder.on_cancel\<close>, on the document \<^verbatim>\<open>self\<close> (header and lines) and the Item
  table. The result is the outcome together with the state that is persisted: an
  exception rolls back what was not committed, and \<^verbatim>\<open>item_status_change_cancel\<close> has
  committed the Item table before the closed-order check is reached. The controller's
  other steps (reserved quantities, project, previous documents, blanket order, stock
  reservations, coupon count) belong to collaborators outside this file and touch
  neither the header status nor the Item statuses.
\<close>

definition on_cancel ::
  "sales_order \<Rightarrow> so_item list \<Rightarrow> (string \<rightharpoonup> item)
     \<Rightarrow> (error + unit) \<times> sales_order \<times> (string \<rightharpoonup> item)" where
  "on_cancel self lines tab =
     (case item_status_change_cancel lines tab of
        Inl e \<Rightarrow> (Inl e, self, tab)
      | Inr tab' \<Rightarrow>
          if status self = ''Closed''
          then (Inl (ValidationError ''Closed order cannot be cancelled. Unclose to cancel.''),
                self, tab')
          else (Inr (), self\<lparr>status := ''Cancelled''\<rparr>, tab'))"

section \<open>Rental flow: replacement and pickup\<close>

text \<open>
  The loop of \<^verbatim>\<open>item_replacement\<close> over the rows of the order that carry the old item
  code (fetched once, before the loop). A row that is \<^verbatim>\<open>Picked Up\<close> becomes \<^verbatim>\<open>Active\<close>
  and the new Item \<^verbatim>\<open>Rented Out\<close>; any other row keeps its sub-status and the new Item
  becomes \<^verbatim>\<open>Reserved\<close>.
\<close>

fun replace_rows ::
  "string \<Rightarrow> string \<Rightarrow> string \<Rightarrow> string \<Rightarrow> so_item list \<Rightarrow> (string \<rightharpoonup> item)
     \<Rightarrow> error + so_item list \<times> (string \<rightharpoonup> item)" where
  "replace_rows docname code new_item replacement_date [] tab = Inr ([], tab)"
| "replace_rows docname code new_item replacement_date (r # rs) tab =
     (if parent r = docname \<and> item_code r = code then
        (case tab new_item of
           None \<Rightarrow> Inl DoesNotExistError
         | Some new_item_doc \<Rightarrow>
             (let picked = (child_status r = ''Picked Up'');
                  r' = r\<lparr>child_status := (if picked then ''Active'' else child_status r),
                         replaced_datetime := replacement_date,
                         old_item_code := code,
                         item_code := new_item\<rparr>;
                  tab' = tab(new_item \<mapsto> new_item_doc\<lparr>item_status :=
                           (if picked then ''Rented Out'' else ''Reserved'')\<rparr>)
              in (case replace_rows docname code new_item replacement_date rs tab' of
                    Inl e \<Rightarrow> Inl e
                  | Inr (rs', tab'') \<Rightarrow> Inr (r' # rs', tab''))))
      else (case replace_rows docname code new_item replacement_date rs tab of
              Inl e \<Rightarrow> Inl e
            | Inr (rs', tab'') \<Rightarrow> Inr (r # rs', tab'')))"

text \<open>
  The end of \<^verbatim>\<open>item_replacement\<close>. The header is recomputed only when some row of the
  order is neither \<^verbatim>\<open>Ready for Delivery\<close> nor \<^verbatim>\<open>DISPATCHED\<close>
  (\<open>replacement_recomputes\<close>); the three flags of the vote are taken over all rows of
  the order, and a header for which no branch fires keeps its status.
\<close>

definition replacement_recomputes :: "string list \<Rightarrow> bool" where
  "replacement_recomputes sts =
     (\<exists>s \<in> set sts. s \<noteq> ''Ready for Delivery'' \<and> s \<noteq> ''DISPATCHED'')"

definition replacement_vote :: "string list \<Rightarrow> string \<Rightarrow> string" where
  "replacement_vote sts old =
     (let all_active = (\<forall>s \<in> set sts. s = ''Active'');
          any_submitted = (\<exists>s \<in> set sts. s = ''Submitted to Office'');
          not_submitted = (\<exists>s \<in> set sts. s \<noteq> ''Submitted to Office'')
      in if all_active then ''Active''
         else if any_submitted then ''Partially Closed''
         else if not_submitted then ''Active''
         else old)"

definition item_replacement_body ::
  "string \<Rightarrow> string \<Rightarrow> string \<Rightarrow> string \<Rightarrow> string \<Rightarrow> string \<Rightarrow> string option \<Rightarrow> db
     \<Rightarrow> error + bool \<times> db" where
  "item_replacement_body code new_item replacement_date master_order_id docname
       old_item_status reason d =
     (let d1 = d\<lparr>replaced_items := replaced_items d @
                 [\<lparr>ri_master_order_id = master_order_id, ri_sales_order_id = docname,
                   ri_replaced_datetime = replacement_date, ri_old_item = code,
                   ri_new_item = new_item, ri_reason = reason\<rparr>]\<rparr>
      in case replace_rows docname code new_item replacement_date (order_items d1) (items d1) of
           Inl e \<Rightarrow> Inl e
         | Inr (rows, tab) \<Rightarrow>
             (case tab code of
                None \<Rightarrow> Inl DoesNotExistError
              | Some old_item_doc \<Rightarrow>
                  (let d2 = d1\<lparr>order_items := rows,
                                items := tab(code \<mapsto> old_item_doc\<lparr>item_status := old_item_status,
                                                                 replaced_reason := reason\<rparr>)\<rparr>;
                       sales_order_items_status = map child_status (get_all_items d2 docname)
                   in if replacement_recomputes sales_order_items_status then
                        (case orders d2 docname of
                           None \<Rightarrow> Inl DoesNotExistError
                         | Some so \<Rightarrow>
                             Inr (True, d2\<lparr>orders := (orders d2)(docname \<mapsto>
                               so\<lparr>status := replacement_vote sales_order_items_status (status so)\<rparr>)\<rparr>))
                      else Inr (True, d2))))"

text \<open>
  \<^verbatim>\<open>item_replacement\<close>: every exception is caught, logged and replaced by one
  \<^verbatim>\<open>frappe.throw\<close>.
\<close>

definition item_replacement ::
  "string \<Rightarrow> string \<Rightarrow> string \<Rightarrow> string \<Rightarrow> string \<Rightarrow> string \<Rightarrow> string option \<Rightarrow> db
     \<Rightarrow> error + bool \<times> db" where
  "item_replacement code new_item replacement_date master_order_id docname
       old_item_status reason d =
     (case item_replacement_body code new_item replacement_date master_order_id docname
             old_item_status reason d of
        Inl e \<Rightarrow> Inl (ValidationError ''Item Replacement Failed. Please try again later.'')
      | Inr res \<Rightarrow> Inr res)"

text \<open>
  \<^verbatim>\<open>update_status_to_pickup(item_code, docname, child_name)\<close>. Every exception is
  caught and the function returns \<^verbatim>\<open>False\<close>; nothing is raised, so what was saved
  before the exception stays saved. With one row, the row and the header become
  \<^verbatim>\<open>Picked Up\<close>; with several rows, the row \<^verbatim>\<open>child_name\<close> becomes \<^verbatim>\<open>Picked Up\<close> and
  the header \<^verbatim>\<open>Active\<close> when no row of the order is \<^verbatim>\<open>Submitted to Office\<close>, else
  \<^verbatim>\<open>Partially Closed\<close>.
\<close>

definition update_status_to_pickup :: "string \<Rightarrow> string \<Rightarrow> string \<Rightarrow> db \<Rightarrow> bool \<times> db" where
  "update_status_to_pickup code docname child_name d =
     (case items d code of
        None \<Rightarrow> (False, d)
      | Some it \<Rightarrow>
          (let d1 = d\<lparr>items := (items d)(code \<mapsto> it\<lparr>item_status := ''Rented Out''\<rparr>)\<rparr>;
               sales_order_items = get_all_items d1 docname;
               picked = (\<lambda>x. x\<lparr>child_status := ''Picked Up'', submitted_date := []\<rparr>)
           in if sales_order_items \<noteq> [] then
                (if length sales_order_items = 1 then
                   (case update_row (name (hd sales_order_items)) picked (order_items d1) of
                      None \<Rightarrow> (False, d1)
                    | Some rows \<Rightarrow>
                        (let d2 = d1\<lparr>order_items := rows\<rparr>
                         in case orders d2 docname of
                              None \<Rightarrow> (False, d2)
                            | Some so \<Rightarrow>
                                (True, d2\<lparr>orders := (orders d2)(docname \<mapsto>
                                   so\<lparr>status := ''Picked Up'', order_submitted_date := []\<rparr>)\<rparr>)))
                 else
                   (case update_row child_name picked (order_items d1) of
                      None \<Rightarrow> (False, d1)
                    | Some rows \<Rightarrow>
                        (let d2 = d1\<lparr>order_items := rows\<rparr>;
                             all_not_submitted =
                               (\<forall>x \<in> set (get_all_items d2 docname).
                                  child_status x \<noteq> ''Submitted to Office'')
                         in case orders d2 docname of
                              None \<Rightarrow> (False, d2)
                            | Some so \<Rightarrow>
                                (True, d2\<lparr>orders := (orders d2)(docname \<mapsto>
                                   so\<lparr>status := (if all_not_submitted then ''Active''
                                                  else ''Partially Closed'')\<rparr>)\<rparr>))))
              else (False, d1)))"

text \<open>
  The header policy in the words of the specification: one line is mirrored; with
  several lines the header is \<^verbatim>\<open>Active\<close> when all lines other than those in
  \<^verbatim>\<open>Ready for Delivery\<close> or \<^verbatim>\<open>DISPATCHED\<close> are \<^verbatim>\<open>Active\<close>, else \<^verbatim>\<open>Partially Closed\<close>
  when a line is \<^verbatim>\<open>Submitted to Office\<close>, else \<^verbatim>\<open>Active\<close>.
\<close>

definition spec_header_status :: "string list \<Rightarrow> string" where
  "spec_header_status sts =
     (case sts of
        [s] \<Rightarrow> s
      | _ \<Rightarrow>
          if \<forall>s \<in> set sts. s \<noteq> ''Ready for Delivery'' \<and> s \<noteq> ''DISPATCHED'' \<longrightarrow> s = ''Active''
          then ''Active''
          else if \<exists>s \<in> set sts. s = ''Submitted to Office'' then ''Partially Closed''
          else ''Active'')"

text \<open>What the claims observe of an order: its header status and its lines' sub-statuses.\<close>

definition header_and_lines :: "string \<Rightarrow> db \<Rightarrow> string option \<times> string list" where
  "header_and_lines docname d =
     (map_option status (orders d docname), map child_status (get_all_items d docname))"

section \<open>Payments and the security deposit\<close>

text \<open>
  \<^verbatim>\<open>validate_and_update_payment_status(docname)\<close>: the balance is written to the order,
  the payment status is classified, and the balance is returned. The label for an order
  on which nothing is paid is \<^verbatim>\<open>UnPaid\<close>, as in the field's declared options
  \<^verbatim>\<open>DF.Literal["Paid", "UnPaid", "Partially Paid"]\<close>.
\<close>

definition validate_and_update_payment_status :: "string \<Rightarrow> db \<Rightarrow> error + rat \<times> db" where
  "validate_and_update_payment_status docname d =
     (case orders d docname of
        None \<Rightarrow> Inl DoesNotExistError
      | Some so \<Rightarrow>
          (let rounded = rounded_total so;
               advance = advance_paid so;
               balance = rounded - advance;
               so1 = so\<lparr>balance_amount := balance\<rparr>;
               so2 = so1\<lparr>payment_status :=
                       (if rounded = advance then ''Paid''
                        else if advance = 0 then ''UnPaid''
                        else ''Partially Paid'')\<rparr>
           in Inr (balance, d\<lparr>orders := (orders d)(docname \<mapsto> so2)\<rparr>)))"

text \<open>
  \<^verbatim>\<open>validate_and_update_payment_and_security_deposit_status(docname)\<close>: the same
  classification of the payment status, then the security deposit: the paid amount is
  the sum of \<^verbatim>\<open>total_debit\<close> over the order's Journal Entries of type
  \<^verbatim>\<open>Cash Received From Client\<close>, and the status is \<^verbatim>\<open>Paid\<close> when the outstanding amount
  is 0, \<^verbatim>\<open>Unpaid\<close> when the outstanding amount equals the whole deposit, and
  \<^verbatim>\<open>Partially Paid\<close> otherwise. \<^verbatim>\<open>security_deposit\<close> is a \<^verbatim>\<open>DF.Data | None\<close> field
  read with \<^verbatim>\<open>float\<close>, which raises a \<^verbatim>\<open>TypeError\<close> on \<^verbatim>\<open>None\<close> and a
  \<^verbatim>\<open>ValueError\<close> on a string that is no number. An exception is caught and thrown
  again with a prefix; the order is saved only at the end, so nothing is saved then.
\<close>

fun float :: "data_value \<Rightarrow> error + rat" where
  "float Null = Inl TypeError"
| "float (Data None) = Inl ValueError"
| "float (Data (Some x)) = Inr x"

definition validate_and_update_payment_and_security_deposit_status ::
  "string \<Rightarrow> db \<Rightarrow> error + bool \<times> db" where
  "validate_and_update_payment_and_security_deposit_status docname d =
     (case orders d docname of
        None \<Rightarrow> Inl (Wrapped ''Failed to update payment status. Error: '' DoesNotExistError)
      | Some so \<Rightarrow>
          (let rounded = rounded_total so;
               advance = advance_paid so;
               balance = rounded - advance;
               so1 = so\<lparr>balance_amount := balance\<rparr>;
               so2 = so1\<lparr>payment_status :=
                       (if rounded = advance then ''Paid''
                        else if advance = 0 then ''UnPaid''
                        else ''Partially Paid'')\<rparr>;
               entries = filter (\<lambda>j. sales_order_id j = docname
                            \<and> security_deposite_type j = ''Cash Received From Client'')
                          (journal_entries d);
               total_debit_amount = sum_list (map total_debit entries)
           in case float (security_deposit so2) of
                Inl e \<Rightarrow> Inl (Wrapped ''Failed to update payment status. Error: '' e)
              | Inr deposit \<Rightarrow>
                  (let so3 = so2\<lparr>paid_security_deposite_amount := total_debit_amount\<rparr>;
                       outstanding = deposit - total_debit_amount;
                       so4 = so3\<lparr>outstanding_security_deposit_amount := outstanding\<rparr>;
                       so5 = so4\<lparr>security_deposit_status :=
                               (if outstanding = 0 then ''Paid''
                                else if outstanding = deposit then ''Unpaid''
                                else ''Partially Paid'')\<rparr>
                   in Inr (True, d\<lparr>orders := (orders d)(docname \<mapsto> so5)\<rparr>))))"

text \<open>
  The two entry constructors of \<^verbatim>\<open>process_payment\<close>. \<^verbatim>\<open>insert()\<close> and \<^verbatim>\<open>submit()\<close>
  belong to the framework; the first argument is the exception they raise, if any. The
  debit total of the Journal Entry is the amount of its one debit row. The arguments
  that are only copied into the entries (customer, accounts, reference, mode of
  payment, remark) are left out.
\<close>

definition create_security_deposit_journal_entry_payment ::
  "error option \<Rightarrow> rat \<Rightarrow> string \<Rightarrow> string \<Rightarrow> db \<Rightarrow> error + db" where
  "create_security_deposit_journal_entry_payment raised security_deposit_payment_amount
       sales_order_name master_order_id d =
     (case raised of
        Some e \<Rightarrow> Inl (ValidationError
          ''Failed to create Security Deposit Journal Entry. Please try again later.'')
      | None \<Rightarrow> Inr (d\<lparr>journal_entries := journal_entries d @
          [\<lparr>sales_order_id = sales_order_name, je_master_order_id = master_order_id,
            security_deposite_type = ''Cash Received From Client'',
            total_debit = security_deposit_payment_amount\<rparr>]\<rparr>))"

definition create_rental_payment_entry ::
  "error option \<Rightarrow> rat \<Rightarrow> string \<Rightarrow> string \<Rightarrow> db \<Rightarrow> error + db" where
  "create_rental_payment_entry raised rental_payment_amount sales_order_name master_order_id d =
     (case raised of
        Some e \<Rightarrow> Inl (Wrapped
          ''Failed to create Rental Payment Entry. Please try again later. Error: '' e)
      | None \<Rightarrow> Inr (d\<lparr>payment_entries := payment_entries d @
          [\<lparr>reference_name = sales_order_name, pe_master_order_id = master_order_id,
            paid_amount = rental_payment_amount\<rparr>]\<rparr>))"

text \<open>
  The \<^verbatim>\<open>try\<close> block of \<^verbatim>\<open>process_payment\<close>. The four amounts arrive as request values;
  \<^verbatim>\<open>None\<close> stands for a value that \<^verbatim>\<open>float\<close> rejects (Python's \<^verbatim>\<open>None\<close>, or a string
  that is no number). The result pairs the outcome with the store as the call leaves
  it: on an exception, the store at the moment the exception is raised.
\<close>

definition process_payment_try ::
  "error option \<Rightarrow> error option \<Rightarrow> rat option \<Rightarrow> rat option \<Rightarrow> rat option \<Rightarrow> rat option
     \<Rightarrow> string \<Rightarrow> string \<Rightarrow> db \<Rightarrow> (error + bool) \<times> db" where
  "process_payment_try je_raised pe_raised balance_amount_arg outstanding_amount
       rental_payment_amount security_deposit_payment_amount sales_order_name master_order_id d =
     (case balance_amount_arg of None \<Rightarrow> (Inl TypeError, d) | Some balance \<Rightarrow>
      case outstanding_amount of None \<Rightarrow> (Inl TypeError, d) | Some outstanding \<Rightarrow>
      case rental_payment_amount of None \<Rightarrow> (Inl TypeError, d) | Some rental \<Rightarrow>
        if rental < 0 then (Inl (ValidationError ''Payment amounts cannot be negative.''), d)
        else
      case security_deposit_payment_amount of None \<Rightarrow> (Inl TypeError, d) | Some deposit \<Rightarrow>
        if deposit < 0 then (Inl (ValidationError ''Payment amounts cannot be negative.''), d)
        else if balance < 0 \<or> outstanding < 0
        then (Inl (ValidationError ''Balance amounts cannot be negative.''), d)
        else if deposit > 0 \<and> rental > 0 then
          (if deposit > outstanding then
             (Inl (ValidationError
                ''Security Deposit Payment Amount cannot be greater than the Security Deposit Amount.''), d)
           else if rental > balance then
             (Inl (ValidationError
                ''Rental Payment Amount cannot be greater than the Balance Amount.''), d)
           else
             (case create_security_deposit_journal_entry_payment je_raised deposit
                     sales_order_name master_order_id d of
                Inl e \<Rightarrow> (Inl e, d)
              | Inr d1 \<Rightarrow>
                  (case create_rental_payment_entry pe_raised rental sales_order_name
                          master_order_id d1 of
                     Inl e \<Rightarrow> (Inl e, d1)
                   | Inr d2 \<Rightarrow> (Inr True, d2))))
        else if deposit > 0 then
          (if deposit > outstanding then
             (Inl (ValidationError
                ''Security Deposit Payment Amount cannot be greater than the Security Deposit Amount.''), d)
           else
             (case create_security_deposit_journal_entry_payment je_raised deposit
                     sales_order_name master_order_id d of
                Inl e \<Rightarrow> (Inl e, d)
              | Inr d1 \<Rightarrow> (Inr True, d1)))
        else if rental > 0 then
          (if rental > balance then
             (Inl (ValidationError
                ''Rental Payment Amount cannot be greater than the Balance Amount.''), d)
           else
             (case create_rental_payment_entry pe_raised rental sales_order_name
                     master_order_id d of
                Inl e \<Rightarrow> (Inl e, d)
              | Inr d1 \<Rightarrow> (Inr True, d1)))
        else (Inr False, d))"

text \<open>
  \<^verbatim>\<open>process_payment\<close>: the handler catches every exception of the block, the thrown
  validation errors included, logs it and throws it again behind a prefix.
\<close>

definition process_payment ::
  "error option \<Rightarrow> error option \<Rightarrow> rat option \<Rightarrow> rat option \<Rightarrow> rat option \<Rightarrow> rat option
     \<Rightarrow> string \<Rightarrow> string \<Rightarrow> db \<Rightarrow> (error + bool) \<times> db" where
  "process_payment je_raised pe_raised balance_amount_arg outstanding_amount
       rental_payment_amount security_deposit_payment_amount sales_order_name master_order_id d =
     (case process_payment_try je_raised pe_raised balance_amount_arg
             outstanding_amount rental_payment_amount
             security_deposit_payment_amount sales_order_name master_order_id d of
        (Inl e, d') \<Rightarrow> (Inl (Wrapped ''Failed to process payment: '' e), d')
      | (Inr b, d') \<Rightarrow> (Inr b, d'))"

section \<open>Derived documents\<close>

text \<open>
  \<^verbatim>\<open>frappe.utils.flt\<close> on a value that may be missing: \<^verbatim>\<open>None\<close> counts as 0. On a
  numeric field of a row \<^verbatim>\<open>flt\<close> is the number itself and is not written in the model.
\<close>

fun flt :: "rat option \<Rightarrow> rat" where
  "flt None = 0"
| "flt (Some x) = x"

text \<open>
  The mapping utility \<^verbatim>\<open>get_mapped_doc\<close> belongs to the framework. As the functions
  below use it: the source order must satisfy the \<^verbatim>\<open>validation\<close> of its table map
  (\<^verbatim>\<open>docstatus = 1\<close>), else the utility throws; each child row that satisfies the
  \<^verbatim>\<open>condition\<close> of its table map is copied field by field under the \<^verbatim>\<open>field_map\<close>,
  and the \<^verbatim>\<open>postprocess\<close> function then changes the copy. The target document is a
  new one (\<^verbatim>\<open>target_doc=None\<close>).
\<close>

definition docstatus_validation :: error where
  "docstatus_validation =
     ValidationError ''Cannot map because following condition fails: docstatus=1''"

subsection \<open>Material Request\<close>

text \<open>
  \<^verbatim>\<open>get_requested_item_qty\<close> sums, for each Sales Order line, the quantity and the
  received quantity of the submitted Material Request rows; the result is a dictionary
  from line names.
\<close>

record requested =
  req_qty :: rat
  req_received_qty :: rat

text \<open>
  \<^verbatim>\<open>make_material_request.get_remaining_qty\<close>, on the name, quantity and delivered
  quantity of a line. A Packed Item has no delivered quantity, which \<^verbatim>\<open>flt\<close> reads
  as 0.
\<close>

definition get_remaining_qty :: "(string \<rightharpoonup> requested) \<Rightarrow> string \<Rightarrow> rat \<Rightarrow> rat option \<Rightarrow> rat" where
  "get_remaining_qty requested_item_qty so_item_name so_item_qty so_item_delivered_qty =
     so_item_qty
       - flt (map_option req_qty (requested_item_qty so_item_name))
       - max (flt so_item_delivered_qty
                - flt (map_option req_received_qty (requested_item_qty so_item_name)))
             0"

record mr_item =
  mr_sales_order :: string
  mr_sales_order_item :: "string option"
  mr_item_code :: string
  mr_rate :: rat
  mr_conversion_factor :: rat
  mr_qty :: rat
  mr_stock_qty :: rat
  mr_amount :: rat

text \<open>\<^verbatim>\<open>make_material_request.update_item\<close>, given the remaining quantity of the source.\<close>

definition update_item_mr :: "rat \<Rightarrow> mr_item \<Rightarrow> mr_item" where
  "update_item_mr remaining target =
     (let t1 = target\<lparr>mr_qty := remaining\<rparr>;
          t2 = t1\<lparr>mr_stock_qty := mr_qty t1 * mr_conversion_factor t1\<rparr>
      in t2\<lparr>mr_amount := mr_qty t2 * mr_rate t2\<rparr>)"

definition material_request_from_item :: "(string \<rightharpoonup> requested) \<Rightarrow> so_item \<Rightarrow> mr_item" where
  "material_request_from_item requested_item_qty source =
     update_item_mr
       (get_remaining_qty requested_item_qty (name source) (qty source)
          (Some (delivered_qty source)))
       \<lparr>mr_sales_order = parent source, mr_sales_order_item = Some (name source),
        mr_item_code = item_code source, mr_rate = rate source,
        mr_conversion_factor = conversion_factor source, mr_qty = qty source,
        mr_stock_qty = 0, mr_amount = amount source\<rparr>"

definition material_request_from_packed_item ::
  "(string \<rightharpoonup> requested) \<Rightarrow> packed_item \<Rightarrow> mr_item" where
  "material_request_from_packed_item requested_item_qty source =
     update_item_mr
       (get_remaining_qty requested_item_qty (pi_name source) (pi_qty source) None)
       \<lparr>mr_sales_order = pi_parent source, mr_sales_order_item = None,
        mr_item_code = pi_item_code source, mr_rate = pi_rate source,
        mr_conversion_factor = pi_conversion_factor source, mr_qty = pi_qty source,
        mr_stock_qty = 0, mr_amount = 0\<rparr>"

text \<open>
  \<^verbatim>\<open>make_material_request\<close>. \<open>bundle_exists\<close> answers
  \<^verbatim>\<open>frappe.db.exists("Product Bundle", {"name": item_code, "disabled": 0})\<close>. A line of
  the order is mapped when it is no bundle and its remaining quantity is positive;
  every Packed Item is mapped.
\<close>

definition make_material_request ::
  "(string \<Rightarrow> bool) \<Rightarrow> (string \<rightharpoonup> requested) \<Rightarrow> db \<Rightarrow> string \<Rightarrow> error + mr_item list" where
  "make_material_request bundle_exists requested_item_qty d source_name =
     (case orders d source_name of
        None \<Rightarrow> Inl DoesNotExistError
      | Some so \<Rightarrow>
          if docstatus so \<noteq> 1 then Inl docstatus_validation
          else Inr
            (map (material_request_from_item requested_item_qty)
               (filter (\<lambda>item. \<not> bundle_exists (item_code item)
                         \<and> get_remaining_qty requested_item_qty (name item) (qty item)
                               (Some (delivered_qty item)) > 0)
                  (get_all_items d source_name))
             @ map (material_request_from_packed_item requested_item_qty)
                 (filter (\<lambda>p. pi_parent p = source_name) (packed_items d))))"

subsection \<open>Delivery Note\<close>

text \<open>
  \<^verbatim>\<open>frappe.flags.args\<close>, the arguments of the request (an empty list or string is
  false), and the \<^verbatim>\<open>kwargs\<close> of \<^verbatim>\<open>make_delivery_note\<close>; when no \<^verbatim>\<open>kwargs\<close> are
  passed they are read from the request arguments.
\<close>

record flag_args =
  delivery_dates :: "string list"
  until_delivery_date :: string
  args_for_reserved_stock :: bool
  args_skip_item_mapping :: bool

record dn_kwargs =
  for_reserved_stock :: bool
  skip_item_mapping :: bool

definition effective_kwargs :: "flag_args option \<Rightarrow> dn_kwargs option \<Rightarrow> dn_kwargs" where
  "effective_kwargs args kwargs =
     (case kwargs of
        Some k \<Rightarrow> k
      | None \<Rightarrow>
          \<lparr>for_reserved_stock = (case args of None \<Rightarrow> False | Some a \<Rightarrow> args_for_reserved_stock a),
           skip_item_mapping = (case args of None \<Rightarrow> False | Some a \<Rightarrow> args_skip_item_mapping a)\<rparr>)"

text \<open>A Stock Reservation Entry, as \<^verbatim>\<open>get_sre_details_for_voucher\<close> returns it.\<close>

record sre =
  voucher_detail_no :: string
  reserved_qty :: rat

record dn_item =
  so_detail :: string
  against_sales_order :: string
  dn_item_code :: string
  dn_conversion_factor :: rat
  dn_rate :: rat
  dn_qty :: rat
  dn_amount :: rat
  dn_base_amount :: rat

text \<open>
  \<^verbatim>\<open>make_delivery_note.condition\<close>. \<open>sre_details\<close> holds the keys of the dictionary of
  reserved quantities; a line found there is refused and its key deleted, so the
  function returns the dictionary as well.
\<close>

definition condition :: "flag_args option \<Rightarrow> string set \<Rightarrow> so_item \<Rightarrow> bool \<times> string set" where
  "condition args sre_details doc =
     (if name doc \<in> sre_details then (False, sre_details - {name doc})
      else if (case args of None \<Rightarrow> False
               | Some a \<Rightarrow> delivery_dates a \<noteq> []
                          \<and> delivery_date doc \<notin> set (delivery_dates a))
      then (False, sre_details)
      else if (case args of None \<Rightarrow> False
               | Some a \<Rightarrow> until_delivery_date a \<noteq> []
                          \<and> delivery_date doc > until_delivery_date a)
      then (False, sre_details)
      else (\<bar>delivered_qty doc\<bar> < \<bar>qty doc\<bar> \<and> delivered_by_supplier doc \<noteq> 1, sre_details))"

text \<open>
  The copy \<^verbatim>\<open>get_mapped_doc\<close> makes of a line (fields of the same name, and \<^verbatim>\<open>name\<close>
  and \<^verbatim>\<open>parent\<close> under the field map), and \<^verbatim>\<open>make_delivery_note.update_item\<close>, which
  overwrites the quantity and the amounts. The cost center it also sets comes from
  lookups outside this file.
\<close>

definition mapped_dn_item :: "so_item \<Rightarrow> dn_item" where
  "mapped_dn_item source =
     \<lparr>so_detail = name source, against_sales_order = parent source,
      dn_item_code = item_code source, dn_conversion_factor = conversion_factor source,
      dn_rate = rate source, dn_qty = qty source, dn_amount = amount source,
      dn_base_amount = base_amount source\<rparr>"

definition update_item :: "so_item \<Rightarrow> dn_item \<Rightarrow> dn_item" where
  "update_item source target =
     target\<lparr>dn_base_amount := (qty source - delivered_qty source) * base_rate source,
            dn_amount := (qty source - delivered_qty source) * rate source,
            dn_qty := qty source - delivered_qty source\<rparr>"

text \<open>The pass of \<^verbatim>\<open>get_mapped_doc\<close> over the lines, threading the dictionary.\<close>

fun map_order_items :: "flag_args option \<Rightarrow> string set \<Rightarrow> so_item list \<Rightarrow> dn_item list \<times> string set" where
  "map_order_items args sre_details [] = ([], sre_details)"
| "map_order_items args sre_details (x # xs) =
     (case condition args sre_details x of
        (ok, sre_details') \<Rightarrow>
          (case map_order_items args sre_details' xs of
             (ys, sre_details'') \<Rightarrow>
               (if ok then update_item x (mapped_dn_item x) # ys else ys, sre_details'')))"

text \<open>
  The loop over the Stock Reservation Entries. \<open>so_items\<close> is the dictionary of the
  lines with reserved stock by name, and a missing key raises. The quantity of the
  copy is the reserved quantity times the conversion factor; the serial and batch
  bundle is not modelled.
\<close>

fun map_reserved ::
  "flag_args option \<Rightarrow> string set \<Rightarrow> (string \<rightharpoonup> so_item) \<Rightarrow> sre list \<Rightarrow> error + dn_item list" where
  "map_reserved args sre_details so_items [] = Inr []"
| "map_reserved args sre_details so_items (s # ss) =
     (case so_items (voucher_detail_no s) of
        None \<Rightarrow> Inl KeyError
      | Some line \<Rightarrow>
          (case condition args sre_details line of
             (ok, sre_details') \<Rightarrow>
               (case map_reserved args sre_details' so_items ss of
                  Inl e \<Rightarrow> Inl e
                | Inr ys \<Rightarrow>
                    Inr (if ok
                         then (update_item line (mapped_dn_item line))
                                \<lparr>dn_qty := reserved_qty s * conversion_factor line\<rparr> # ys
                         else ys))))"

text \<open>
  \<^verbatim>\<open>make_delivery_note\<close>. \<open>sre_reserved_qty_details\<close> and \<open>sre_list\<close> are what the two
  stock reservation queries return, \<open>bulk_transaction\<close> is
  \<^verbatim>\<open>frappe.flags.bulk_transaction\<close>. The result is the list of item rows of the
  Delivery Note, or \<^verbatim>\<open>None\<close> when the function returns without a document. The final
  \<^verbatim>\<open>set_missing_values\<close> runs methods of the target document and is outside this file.
\<close>

definition make_delivery_note ::
  "db \<Rightarrow> flag_args option \<Rightarrow> bool \<Rightarrow> string set \<Rightarrow> sre list \<Rightarrow> string \<Rightarrow> dn_kwargs option
     \<Rightarrow> error + dn_item list option" where
  "make_delivery_note d args bulk_transaction sre_reserved_qty_details sre_list source_name kwargs =
     (let kw = effective_kwargs args kwargs;
          sre_details = (if for_reserved_stock kw then sre_reserved_qty_details else {})
      in case orders d source_name of
           None \<Rightarrow> Inl DoesNotExistError
         | Some so \<Rightarrow>
             if docstatus so \<noteq> 1 then Inl docstatus_validation
             else
               (let lines = get_all_items d source_name;
                    mapped = (if \<not> skip_item_mapping kw
                              then map_order_items args sre_details lines
                              else ([], sre_details));
                    reserved =
                      (if \<not> skip_item_mapping kw \<and> for_reserved_stock kw \<and> sre_list \<noteq> []
                       then map_reserved args (snd mapped)
                              (map_of (rev (map (\<lambda>l. (name l, l))
                                 (filter (\<lambda>l. stock_reserved_qty l \<noteq> 0) lines))))
                              sre_list
                       else Inr [])
                in case reserved of
                     Inl e \<Rightarrow> Inl e
                   | Inr extra \<Rightarrow>
                       (let target_items = fst mapped @ extra
                        in if \<not> skip_item_mapping kw \<and> bulk_transaction \<and> target_items = []
                           then Inr None
                           else Inr (Some target_items))))"

subsection \<open>Pick List\<close>

record pick_list_item =
  pl_sales_order :: string
  sales_order_item :: string
  product_bundle_item :: "string option"
  pl_item_code :: string
  pl_qty :: rat
  pl_stock_qty :: rat

text \<open>
  \<^verbatim>\<open>create_pick_list.validate_sales_order\<close>: an order with reserved stock on any line
  is refused. \<^verbatim>\<open>frappe.bold\<close> wraps the order's name in \<^verbatim>\<open><strong>\<close> tags.
\<close>

definition validate_sales_order :: "db \<Rightarrow> string \<Rightarrow> error + unit" where
  "validate_sales_order d source_name =
     (case orders d source_name of
        None \<Rightarrow> Inl DoesNotExistError
      | Some so \<Rightarrow>
          if \<exists>item \<in> set (get_all_items d source_name). stock_reserved_qty item > 0
          then Inl (ValidationError
                 (''Cannot create a pick list for Sales Order <strong>'' @ source_name
                  @ ''</strong> because it has reserved stock. Please unreserve the stock in order to create a pick list.''))
          else Inr ())"

text \<open>\<^verbatim>\<open>create_pick_list.update_item_quantity\<close>: \<^verbatim>\<open>x or 1\<close> is 1 when \<open>x\<close> is 0.\<close>

definition qty_to_be_picked :: "so_item \<Rightarrow> rat" where
  "qty_to_be_picked source =
     (let picked = picked_qty source
                     / (if conversion_factor source \<noteq> 0 then conversion_factor source else 1)
      in qty source - max picked (delivered_qty source))"

definition update_item_quantity :: "so_item \<Rightarrow> pick_list_item \<Rightarrow> pick_list_item" where
  "update_item_quantity source target =
     target\<lparr>pl_qty := qty_to_be_picked source,
            pl_stock_qty := qty_to_be_picked source * conversion_factor source\<rparr>"

text \<open>
  \<^verbatim>\<open>create_pick_list.update_packed_item_qty\<close>: the first line of the order that the
  Packed Item belongs to gives the pending share; the division raises when that line's
  quantity is 0; without such a line the copy is left as it is.
\<close>

fun update_packed_item_qty :: "packed_item \<Rightarrow> so_item list \<Rightarrow> pick_list_item \<Rightarrow> error + pick_list_item" where
  "update_packed_item_qty source [] target = Inr target"
| "update_packed_item_qty source (item # rest) target =
     (if parent_detail_docname source = name item then
        (if qty item = 0 then Inl ZeroDivisionError
         else
           (let picked = picked_qty item
                           / (if conversion_factor item \<noteq> 0 then conversion_factor item else 1);
                pending_percent = (qty item - max picked (delivered_qty item)) / qty item
            in Inr (target\<lparr>pl_qty := pi_qty source * pending_percent,
                           pl_stock_qty := pi_qty source * pending_percent\<rparr>)))
      else update_packed_item_qty source rest target)"

text \<open>
  \<^verbatim>\<open>create_pick_list.should_pick_order_item\<close>; \<open>is_product_bundle\<close> is the imported
  test for an enabled Product Bundle of that item code.
\<close>

definition should_pick_order_item :: "(string \<Rightarrow> bool) \<Rightarrow> so_item \<Rightarrow> bool" where
  "should_pick_order_item is_product_bundle item =
     (\<bar>delivered_qty item\<bar> < \<bar>qty item\<bar>
      \<and> delivered_by_supplier item \<noteq> 1
      \<and> \<not> is_product_bundle (item_code item))"

definition pick_list_from_item :: "so_item \<Rightarrow> pick_list_item" where
  "pick_list_from_item source =
     update_item_quantity source
       \<lparr>pl_sales_order = parent source, sales_order_item = name source,
        product_bundle_item = None, pl_item_code = item_code source,
        pl_qty = qty source, pl_stock_qty = 0\<rparr>"

fun pick_list_from_packed_items ::
  "so_item list \<Rightarrow> packed_item list \<Rightarrow> error + pick_list_item list" where
  "pick_list_from_packed_items lines [] = Inr []"
| "pick_list_from_packed_items lines (p # ps) =
     (case update_packed_item_qty p lines
             \<lparr>pl_sales_order = pi_parent p, sales_order_item = pi_name p,
              product_bundle_item = Some (parent_detail_docname p),
              pl_item_code = pi_item_code p, pl_qty = pi_qty p, pl_stock_qty = 0\<rparr> of
        Inl e \<Rightarrow> Inl e
      | Inr t \<Rightarrow>
          (case pick_list_from_packed_items lines ps of
             Inl e \<Rightarrow> Inl e
           | Inr ts \<Rightarrow> Inr (t # ts)))"

text \<open>
  \<^verbatim>\<open>create_pick_list\<close>: the rows of the Pick List as the mapping produces them, the
  lines of the order first and its Packed Items after them. The closing
  \<^verbatim>\<open>set_item_locations\<close> is a method of the Pick List, outside this file.
\<close>

definition create_pick_list ::
  "(string \<Rightarrow> bool) \<Rightarrow> db \<Rightarrow> string \<Rightarrow> error + pick_list_item list" where
  "create_pick_list is_product_bundle d source_name =
     (case validate_sales_order d source_name of
        Inl e \<Rightarrow> Inl e
      | Inr _ \<Rightarrow>
          (case orders d source_name of
             None \<Rightarrow> Inl DoesNotExistError
           | Some so \<Rightarrow>
               if docstatus so \<noteq> 1 then Inl docstatus_validation
               else
                 (let lines = get_all_items d source_name
                  in case pick_list_from_packed_items lines
                            (filter (\<lambda>p. pi_parent p = source_name) (packed_items d)) of
                       Inl e \<Rightarrow> Inl e
                     | Inr packed \<Rightarrow>
                         Inr (map pick_list_from_item
                                (filter (should_pick_order_item is_product_bundle) lines)
                              @ packed))))"

section \<open>Example data\<close>

definition order0 :: sales_order where
  "order0 = \<lparr> docstatus = 1, status = ''Active'', previous_order_id = None,
     start_date = NoDate, end_date = NoDate, rounded_total = 0, advance_paid = 0,
     balance_amount = 0, payment_status = '''', security_deposit = Null,
     paid_security_deposite_amount = 0, outstanding_security_deposit_amount = 0,
     security_deposit_status = '''', order_submitted_date = '''' \<rparr>"

definition db0 :: db where
  "db0 = \<lparr> orders = Map.empty, order_items = [], packed_items = [], items = Map.empty,
     replaced_items = [], journal_entries = [], payment_entries = [] \<rparr>"

text \<open>
  A first rental in January 2024, as loaded from the store; two renewals of it as they
  arrive in a request, with their dates as strings; and a renewal loaded from the store.
\<close>

definition january :: sales_order where
  "january = order0 \<lparr> start_date := DateObject (2024, 1, 1),
     end_date := DateObject (2024, 1, 31) \<rparr>"

definition january_store :: db where
  "january_store = db0 \<lparr> orders := [''SO-0001'' \<mapsto> january] \<rparr>"

definition renewal_march :: sales_order where
  "renewal_march = order0 \<lparr> docstatus := 0, previous_order_id := Some ''SO-0001'',
     start_date := DateString (Some (2024, 3, 1)),
     end_date := DateString (Some (2024, 3, 31)) \<rparr>"

definition renewal_mid_january :: sales_order where
  "renewal_mid_january = order0 \<lparr> docstatus := 0, previous_order_id := Some ''SO-0001'',
     start_date := DateString (Some (2024, 1, 15)),
     end_date := DateString (Some (2024, 2, 15)) \<rparr>"

definition renewal_loaded :: sales_order where
  "renewal_loaded = order0 \<lparr> docstatus := 0, previous_order_id := Some ''SO-0001'',
     start_date := DateObject (2024, 3, 1), end_date := DateObject (2024, 3, 31) \<rparr>"

definition line0 :: so_item where
  "line0 = \<lparr> name = ''row-0'', parent = ''SO-0001'', item_code = ''BED-01'', qty = 1,
     rate = 100,
     base_rate = 100, amount = 100, base_amount = 100, conversion_factor = 1,
     delivered_qty = 0, picked_qty = 0, stock_reserved_qty = 0, delivered_by_supplier = 0, delivery_date = ''2024-01-01'',
     child_status = ''Pending'', replaced_datetime = [], old_item_code = [],
     submitted_date = [] \<rparr>"

definition item0 :: item where
  "item0 = \<lparr> item_status = ''Available'', replaced_reason = None \<rparr>"

definition row1 :: so_item where
  "row1 = line0 \<lparr> name := ''row-1'', item_code := ''BED-01'' \<rparr>"

definition row2 :: so_item where
  "row2 = line0 \<lparr> name := ''row-2'', item_code := ''BED-02'' \<rparr>"

definition row3 :: so_item where
  "row3 = line0 \<lparr> name := ''row-3'', item_code := ''BED-03'' \<rparr>"

definition approval_db :: db where
  "approval_db = db0 \<lparr> orders := [''SO-0001'' \<mapsto> order0 \<lparr> status := ''Pending'' \<rparr>],
     order_items := [row1, row2, row3],
     items := [''BED-01'' \<mapsto> item0, ''BED-02'' \<mapsto> item0 \<lparr> item_status := ''Rented Out'' \<rparr>,
               ''BED-03'' \<mapsto> item0] \<rparr>"

definition rented_items :: "string \<rightharpoonup> item" where
  "rented_items = [''BED-01'' \<mapsto> item0 \<lparr> item_status := ''Rented Out'' \<rparr>]"

text \<open>A one-line order whose line waits for pickup, before and after a replacement.\<close>

definition single_db :: db where
  "single_db = db0 \<lparr> orders := [''SO-0001'' \<mapsto> order0 \<lparr> status := ''Ready for Pickup'' \<rparr>],
     order_items := [row1 \<lparr> child_status := ''Ready for Pickup'' \<rparr>],
     items := [''BED-01'' \<mapsto> item0 \<lparr> item_status := ''Rented Out'' \<rparr>, ''BED-02'' \<mapsto> item0] \<rparr>"

definition single_db_replaced :: db where
  "single_db_replaced = db0 \<lparr> orders := [''SO-0001'' \<mapsto> order0 \<lparr> status := ''Active'' \<rparr>],
     order_items := [row1 \<lparr> child_status := ''Ready for Pickup'',
                             replaced_datetime := ''2024-02-01'', old_item_code := ''BED-01'',
                             item_code := ''BED-02'' \<rparr>],
     items := [''BED-02'' \<mapsto> item0 \<lparr> item_status := ''Reserved'' \<rparr>,
               ''BED-01'' \<mapsto> item0 \<lparr> item_status := ''Available'' \<rparr>],
     replaced_items := [\<lparr> ri_master_order_id = ''SO-0001'', ri_sales_order_id = ''SO-0001'',
        ri_replaced_datetime = ''2024-02-01'', ri_old_item = ''BED-01'', ri_new_item = ''BED-02'',
        ri_reason = None \<rparr>] \<rparr>"

text \<open>
  An order of 100 with a deposit of 50 and nothing paid, before and after its statuses
  are recomputed.
\<close>

definition unpaid_db :: db where
  "unpaid_db = db0 \<lparr> orders := [''SO-0001'' \<mapsto>
     order0 \<lparr> rounded_total := 100, advance_paid := 0,
       security_deposit := Data (Some 50) \<rparr>] \<rparr>"

definition unpaid_db_updated :: db where
  "unpaid_db_updated = db0 \<lparr> orders := [''SO-0001'' \<mapsto>
     order0 \<lparr> rounded_total := 100, advance_paid := 0,
       security_deposit := Data (Some 50),
       balance_amount := 100, payment_status := ''UnPaid'',
       paid_security_deposite_amount := 0, outstanding_security_deposit_amount := 50,
       security_deposit_status := ''Unpaid'' \<rparr>] \<rparr>"

text \<open>
  Orders for the derived documents: one whose first line has reserved stock, one with a
  bundle line and its component, and one whose line is picked beyond its quantity.
\<close>

definition no_bundles :: "string \<Rightarrow> bool" where
  "no_bundles code = False"

definition bed_set_is_bundle :: "string \<Rightarrow> bool" where
  "bed_set_is_bundle code = (code = ''BED-SET'')"

definition reserved_db :: db where
  "reserved_db = db0 \<lparr> orders := [''SO-0001'' \<mapsto> order0],
     order_items := [row1 \<lparr> stock_reserved_qty := 1 \<rparr>, row2] \<rparr>"

definition bundle_db :: db where
  "bundle_db = db0 \<lparr> orders := [''SO-0001'' \<mapsto> order0],
     order_items := [row1, row2 \<lparr> item_code := ''BED-SET'' \<rparr>],
     packed_items := [\<lparr> pi_name = ''packed-1'', pi_parent = ''SO-0001'',
        parent_detail_docname = ''row-2'', pi_item_code = ''MATTRESS'', pi_qty = 2,
        pi_rate = 0, pi_conversion_factor = 1 \<rparr>] \<rparr>"

definition overpicked_db :: db where
  "overpicked_db = db0 \<lparr> orders := [''SO-0001'' \<mapsto> order0],
     order_items := [row1 \<lparr> qty := 10, picked_qty := 12 \<rparr>] \<rparr>"

definition over_requested :: "string \<rightharpoonup> requested" where
  "over_requested = [''row-1'' \<mapsto> \<lparr> req_qty = 15, req_received_qty = 0 \<rparr>]"

section \<open>Theorems\<close>

subsection \<open>Auxiliary facts\<close>

lemma update_row_distinct:
  "distinct (map name rs) \<Longrightarrow> n \<in> name ` set rs \<Longrightarrow>
     update_row n f rs = Some (map (\<lambda>x. if name x = n then f x else x) rs)"
proof (induction rs)
  case Nil
  then show ?case by simp
next
  case (Cons r rs)
  show ?case
  proof (cases "name r = n")
    case True
    with Cons.prems have "\<forall>x \<in> set rs. name x \<noteq> n" by (auto simp: image_iff)
    then have "map (\<lambda>x. if name x = n then f x else x) rs = rs"
      by (simp add: map_idI)
    with True show ?thesis by simp
  next
    case False
    with Cons show ?thesis by auto
  qed
qed

lemma get_all_items_map:
  assumes "\<And>y. parent (f y) = parent y"
  shows "filter (\<lambda>r. parent r = n) (map f rs) = map f (filter (\<lambda>r. parent r = n) rs)"
  using assms by (induction rs) auto

subsection \<open>C1: the overlap guard\<close>

text \<open>
  C1, as the code has it. Take a Sales Order with a \<^verbatim>\<open>previous_order_id\<close> whose
  predecessor carries both of its dates as date objects, as a document loaded from the
  store does. When the order's own start and end date are strings that
  \<^verbatim>\<open>strptime\<close> reads as dates, \<^verbatim>\<open>before_submit\<close> fails with the date-overlap error
  exactly when the two closed intervals overlap, and lets the submission go on exactly
  when they do not overlap. When the order's own start date is a date object and its
  end date is set, \<^verbatim>\<open>before_submit\<close> fails with a \<^verbatim>\<open>TypeError\<close>, whatever the
  intervals are.
\<close>

theorem before_submit_rejects_overlap:
  assumes "previous_order_id self = Some p" and "p \<noteq> []"
    and "orders d p = Some prev"
    and "start_date prev = DateObject ps" and "end_date prev = DateObject pe"
  shows "(start_date self = DateString (Some s) \<and> end_date self = DateString (Some e) \<longrightarrow>
            before_submit d self =
              (if s \<le> pe \<and> ps \<le> e
               then Inl (ValidationError
                      ''Current start and end dates overlap with the previous order.'')
               else Inr ()))
       \<and> (start_date self = DateObject x \<and> end_date self \<noteq> NoDate \<longrightarrow>
            before_submit d self = Inl TypeError)"
proof (intro conjI impI)
  assume "start_date self = DateString (Some s) \<and> end_date self = DateString (Some e)"
  then show "before_submit d self =
              (if s \<le> pe \<and> ps \<le> e
               then Inl (ValidationError
                      ''Current start and end dates overlap with the previous order.'')
               else Inr ())"
    using assms by (simp add: before_submit_def check_overlap_def)
next
  assume a: "start_date self = DateObject x \<and> end_date self \<noteq> NoDate"
  then have "date_truthy (end_date self)" by (cases "end_date self") simp_all
  with a show "before_submit d self = Inl TypeError"
    using assms by (simp add: before_submit_def check_overlap_def)
qed

theorem before_submit_rejects_overlap_witness:
  "before_submit january_store renewal_mid_january =
     Inl (ValidationError ''Current start and end dates overlap with the previous order.'')
   \<and> before_submit january_store renewal_loaded = Inl TypeError"
proof -
  have p: "orders january_store ''SO-0001'' = Some january"
    by (simp add: january_store_def db0_def)
  have ne: "''SO-0001'' \<noteq> []" by simp
  have ps: "start_date january = DateObject (2024, 1, 1)"
    and pe: "end_date january = DateObject (2024, 1, 31)"
    by (simp_all add: january_def order0_def)
  have m: "previous_order_id renewal_mid_january = Some ''SO-0001''"
    and ms: "start_date renewal_mid_january = DateString (Some (2024, 1, 15))
             \<and> end_date renewal_mid_january = DateString (Some (2024, 2, 15))"
    by (simp_all add: renewal_mid_january_def order0_def)
  have l: "previous_order_id renewal_loaded = Some ''SO-0001''"
    and ls: "start_date renewal_loaded = DateObject (2024, 3, 1)
             \<and> end_date renewal_loaded \<noteq> NoDate"
    by (simp_all add: renewal_loaded_def order0_def)
  have ov: "(2024, 1, 15) \<le> ((2024, 1, 31) :: date) \<and> ((2024, 1, 1) :: date) \<le> (2024, 2, 15)"
    by simp
  from before_submit_rejects_overlap [OF m ne p ps pe, THEN conjunct1, rule_format, OF ms] ov
  have a: "before_submit january_store renewal_mid_january =
     Inl (ValidationError ''Current start and end dates overlap with the previous order.'')"
    by simp
  from before_submit_rejects_overlap [OF l ne p ps pe, THEN conjunct2, rule_format, OF ls]
  have b: "before_submit january_store renewal_loaded = Inl TypeError" .
  from a b show ?thesis by (rule conjI)
qed

text \<open>
  C1 as stated fails: a renewal for March, with its dates as strings, does not overlap
  the January predecessor and passes \<^verbatim>\<open>before_submit\<close> instead of being rejected.
\<close>

theorem before_submit_disjoint_passes:
  "before_submit january_store renewal_march = Inr ()
   \<and> \<not> ((2024, 3, 1) \<le> ((2024, 1, 31) :: date) \<and> ((2024, 1, 1) :: date) \<le> (2024, 3, 31))"
  by (simp add: before_submit_def check_overlap_def renewal_march_def january_store_def
      january_def order0_def db0_def)

subsection \<open>C2: the header status after a recomputation\<close>

lemma spec_header_status_many:
  "length sts \<noteq> 1 \<Longrightarrow>
     spec_header_status sts =
       (if \<forall>s \<in> set sts. s \<noteq> ''Submitted to Office'' then ''Active'' else ''Partially Closed'')"
proof (cases sts)
  case Nil
  then show ?thesis by (simp add: spec_header_status_def)
next
  case (Cons a as)
  assume "length sts \<noteq> 1"
  with Cons obtain b bs where as: "as = b # bs" by (cases as) auto
  have sub: "\<And>s. s = ''Submitted to Office'' \<Longrightarrow>
     s \<noteq> ''Ready for Delivery'' \<and> s \<noteq> ''DISPATCHED'' \<and> s \<noteq> ''Active''" by simp
  show ?thesis
  proof (cases "\<forall>s \<in> set sts. s \<noteq> ''Submitted to Office''")
    case True
    then show ?thesis unfolding Cons as spec_header_status_def by (simp del: set_simps)
  next
    case False
    then obtain s where s: "s \<in> set sts" "s = ''Submitted to Office''" by blast
    with sub have "\<not> (\<forall>s \<in> set sts. s \<noteq> ''Ready for Delivery'' \<and> s \<noteq> ''DISPATCHED''
        \<longrightarrow> s = ''Active'')" by blast
    with False show ?thesis unfolding Cons as spec_header_status_def
      by (simp del: set_simps)
  qed
qed

lemma replacement_vote_many:
  assumes "replacement_recomputes sts" and "length sts \<noteq> 1"
  shows "replacement_vote sts old = spec_header_status sts"
proof -
  have sub: "\<And>s. s = ''Submitted to Office'' \<Longrightarrow> s \<noteq> ''Active''" by simp
  from assms(1) obtain t where t: "t \<in> set sts" "t \<noteq> ''Ready for Delivery''" "t \<noteq> ''DISPATCHED''"
    unfolding replacement_recomputes_def by blast
  show ?thesis
  proof (cases "\<forall>s \<in> set sts. s \<noteq> ''Submitted to Office''")
    case True
    with t(1) have "\<exists>s \<in> set sts. s \<noteq> ''Submitted to Office''" by blast
    with True show ?thesis
      unfolding spec_header_status_many [OF assms(2)] replacement_vote_def Let_def by auto
  next
    case False
    then obtain s where s: "s \<in> set sts" "s = ''Submitted to Office''" by blast
    with sub have "\<not> (\<forall>s \<in> set sts. s = ''Active'')" by blast
    with False show ?thesis
      unfolding spec_header_status_many [OF assms(2)] replacement_vote_def Let_def by auto
  qed
qed

lemma replacement_vote_single:
  assumes "replacement_recomputes [s]"
  shows "replacement_vote [s] old =
     (if s = ''Submitted to Office'' then ''Partially Closed'' else ''Active'')"
  by (simp add: replacement_vote_def)

lemma replace_rows_ok:
  "tab new_item \<noteq> None \<Longrightarrow>
     \<exists>rs' tab'. replace_rows docname code new_item date rs tab = Inr (rs', tab')
        \<and> (\<forall>c. tab c \<noteq> None \<longrightarrow> tab' c \<noteq> None)"
proof (induction rs arbitrary: tab)
  case Nil
  then show ?case by simp
next
  case (Cons r rs)
  from Cons.prems obtain nd where nd: "tab new_item = Some nd" by auto
  show ?case
  proof (cases "parent r = docname \<and> item_code r = code")
    case True
    let ?picked = "child_status r = ''Picked Up''"
    let ?tab' = "tab(new_item \<mapsto> nd\<lparr>item_status := (if ?picked then ''Rented Out'' else ''Reserved'')\<rparr>)"
    have "?tab' new_item \<noteq> None" by simp
    from Cons.IH [of ?tab', OF this] obtain rs' tab'' where
      r: "replace_rows docname code new_item date rs ?tab' = Inr (rs', tab'')"
      and k: "\<forall>c. ?tab' c \<noteq> None \<longrightarrow> tab'' c \<noteq> None" by blast
    have k': "\<forall>c. tab c \<noteq> None \<longrightarrow> tab'' c \<noteq> None"
    proof (intro allI impI)
      fix c assume "tab c \<noteq> None"
      then have "?tab' c \<noteq> None" by simp
      with k show "tab'' c \<noteq> None" by blast
    qed
    show ?thesis using True nd r k' by (simp add: Let_def)
  next
    case False
    from Cons.IH [of tab, OF Cons.prems] obtain rs' tab'' where
      r: "replace_rows docname code new_item date rs tab = Inr (rs', tab'')"
      and k: "\<forall>c. tab c \<noteq> None \<longrightarrow> tab'' c \<noteq> None" by blast
    show ?thesis using False r k by auto
  qed
qed


lemma update_status_to_pickup_header:
  assumes it: "items d code = Some it"
    and so: "orders d docname = Some so"
    and ne: "get_all_items d docname \<noteq> []"
    and names: "distinct (map name (order_items d))"
    and child: "length (get_all_items d docname) = 1 \<or> child_name \<in> name ` set (order_items d)"
  shows "\<exists>d'. update_status_to_pickup code docname child_name d = (True, d')
      \<and> map_option status (orders d' docname) =
          Some (spec_header_status (map child_status (get_all_items d' docname)))"
proof -
  let ?picked = "\<lambda>x. x\<lparr>child_status := ''Picked Up'', submitted_date := []\<rparr>"
  let ?d1 = "d\<lparr>items := (items d)(code \<mapsto> it\<lparr>item_status := ''Rented Out''\<rparr>)\<rparr>"
  let ?rows = "get_all_items d docname"
  have g1: "\<And>v. get_all_items (d\<lparr>items := v\<rparr>) docname = ?rows"
    by (simp add: get_all_items_def)
  have o1: "order_items ?d1 = order_items d" by simp
  show ?thesis
  proof (cases "length ?rows = 1")
    case True
    then obtain x where x: "?rows = [x]" by (cases ?rows) auto
    then have "x \<in> set ?rows" by simp
    then have xin: "name x \<in> name ` set (order_items d)" by (auto simp: get_all_items_def)
    let ?f = "\<lambda>y. if name y = name x then ?picked y else y"
    have ur: "update_row (name x) ?picked (order_items d) = Some (map ?f (order_items d))"
      by (rule update_row_distinct [OF names xin])
    let ?d2 = "?d1\<lparr>order_items := map ?f (order_items d)\<rparr>"
    let ?d' = "?d2\<lparr>orders := (orders ?d2)(docname \<mapsto>
                  so\<lparr>status := ''Picked Up'', order_submitted_date := []\<rparr>)\<rparr>"
    have res: "update_status_to_pickup code docname child_name d = (True, ?d')"
      unfolding update_status_to_pickup_def Let_def
      using it so ur x by (simp add: g1)
    have "get_all_items ?d' docname = map ?f ?rows"
      unfolding get_all_items_def by (simp add: get_all_items_map)
    then have ga: "map child_status (get_all_items ?d' docname) = [''Picked Up'']"
      unfolding x by simp
    have "map_option status (orders ?d' docname) = Some ''Picked Up''" by simp
    then have "map_option status (orders ?d' docname) =
          Some (spec_header_status (map child_status (get_all_items ?d' docname)))"
      unfolding ga by (simp add: spec_header_status_def)
    with res show ?thesis by blast
  next
    case False
    with child have cin: "child_name \<in> name ` set (order_items d)" by simp
    let ?f = "\<lambda>y. if name y = child_name then ?picked y else y"
    have ur: "update_row child_name ?picked (order_items d) = Some (map ?f (order_items d))"
      by (rule update_row_distinct [OF names cin])
    let ?d2 = "?d1\<lparr>order_items := map ?f (order_items d)\<rparr>"
    let ?st = "if \<forall>x \<in> set (get_all_items ?d2 docname). child_status x \<noteq> ''Submitted to Office''
               then ''Active'' else ''Partially Closed''"
    let ?d' = "?d2\<lparr>orders := (orders ?d2)(docname \<mapsto> so\<lparr>status := ?st\<rparr>)\<rparr>"
    have res: "update_status_to_pickup code docname child_name d = (True, ?d')"
      unfolding update_status_to_pickup_def Let_def
      using it so ur ne False by (simp add: g1)
    have ga2: "get_all_items ?d2 docname = map ?f ?rows"
      unfolding get_all_items_def by (simp add: get_all_items_map)
    have ga: "get_all_items ?d' docname = get_all_items ?d2 docname"
      unfolding get_all_items_def by simp
    have len: "length (map child_status (get_all_items ?d2 docname)) \<noteq> 1"
      unfolding ga2 using False by simp
    have st: "map_option status (orders ?d' docname) = Some ?st" by simp
    have "?st = spec_header_status (map child_status (get_all_items ?d2 docname))"
      unfolding spec_header_status_many [OF len] by simp
    with st have "map_option status (orders ?d' docname) =
          Some (spec_header_status (map child_status (get_all_items ?d' docname)))"
      unfolding ga by simp
    with res show ?thesis by blast
  qed
qed

lemma item_replacement_header:
  assumes c: "items d code \<noteq> None"
    and n: "items d new_item \<noteq> None"
    and so: "orders d docname = Some so"
  shows "\<exists>d'. item_replacement code new_item date master docname old_status reason d = Inr (True, d')
     \<and> map_option status (orders d' docname) =
         Some (let sts = map child_status (get_all_items d' docname)
               in if \<not> replacement_recomputes sts then status so
                  else if length sts = 1
                       then (if sts = [''Submitted to Office''] then ''Partially Closed'' else ''Active'')
                       else spec_header_status sts)"
proof -
  let ?d1 = "d\<lparr>replaced_items := replaced_items d @
                 [\<lparr>ri_master_order_id = master, ri_sales_order_id = docname,
                   ri_replaced_datetime = date, ri_old_item = code,
                   ri_new_item = new_item, ri_reason = reason\<rparr>]\<rparr>"
  from replace_rows_ok [of "items d" new_item docname code date "order_items d", OF n]
  obtain rows tab where rr: "replace_rows docname code new_item date (order_items d) (items d) = Inr (rows, tab)"
    and keep: "\<forall>c. items d c \<noteq> None \<longrightarrow> tab c \<noteq> None" by blast
  from keep c obtain od where od: "tab code = Some od" by auto
  let ?d2 = "?d1\<lparr>order_items := rows,
                   items := tab(code \<mapsto> od\<lparr>item_status := old_status, replaced_reason := reason\<rparr>)\<rparr>"
  let ?sts = "map child_status (get_all_items ?d2 docname)"
  have o2: "orders ?d2 docname = Some so" using so by simp
  show ?thesis
  proof (cases "replacement_recomputes ?sts")
    case True
    let ?d' = "?d2\<lparr>orders := (orders ?d2)(docname \<mapsto>
                   so\<lparr>status := replacement_vote ?sts (status so)\<rparr>)\<rparr>"
    have body: "item_replacement_body code new_item date master docname old_status reason d = Inr (True, ?d')"
      unfolding item_replacement_body_def Let_def
      using rr od True so by simp
    then have res: "item_replacement code new_item date master docname old_status reason d = Inr (True, ?d')"
      unfolding item_replacement_def by simp
    have ga: "get_all_items ?d' docname = get_all_items ?d2 docname"
      unfolding get_all_items_def by simp
    have st: "map_option status (orders ?d' docname) = Some (replacement_vote ?sts (status so))"
      by simp
    have "replacement_vote ?sts (status so) =
        (if length ?sts = 1
         then (if ?sts = [''Submitted to Office''] then ''Partially Closed'' else ''Active'')
         else spec_header_status ?sts)"
    proof (cases "length ?sts = 1")
      case one: True
      then obtain s where s: "?sts = [s]" by (cases ?sts) auto
      with True have "replacement_recomputes [s]" by simp
      from replacement_vote_single [OF this] show ?thesis unfolding s by simp
    next
      case False
      with replacement_vote_many [OF True False] show ?thesis by simp
    qed
    with st True have "map_option status (orders ?d' docname) =
         Some (let sts = map child_status (get_all_items ?d' docname)
               in if \<not> replacement_recomputes sts then status so
                  else if length sts = 1
                       then (if sts = [''Submitted to Office''] then ''Partially Closed'' else ''Active'')
                       else spec_header_status sts)"
      unfolding ga Let_def by simp
    with res show ?thesis by blast
  next
    case False
    have body: "item_replacement_body code new_item date master docname old_status reason d = Inr (True, ?d2)"
      unfolding item_replacement_body_def Let_def
      using rr od False by simp
    then have res: "item_replacement code new_item date master docname old_status reason d = Inr (True, ?d2)"
      unfolding item_replacement_def by simp
    have "map_option status (orders ?d2 docname) =
         Some (let sts = map child_status (get_all_items ?d2 docname)
               in if \<not> replacement_recomputes sts then status so
                  else if length sts = 1
                       then (if sts = [''Submitted to Office''] then ''Partially Closed'' else ''Active'')
                       else spec_header_status sts)"
      unfolding Let_def using False o2 by simp
    with res show ?thesis by blast
  qed
qed

text \<open>
  C2, as the code has it. After a successful \<^verbatim>\<open>update_status_to_pickup\<close> the header
  follows the policy of the specification: it mirrors a single line, and with several
  lines it is \<^verbatim>\<open>Active\<close> when all lines outside \<^verbatim>\<open>Ready for Delivery\<close> and
  \<^verbatim>\<open>DISPATCHED\<close> are \<^verbatim>\<open>Active\<close>, else \<^verbatim>\<open>Partially Closed\<close> when a line is
  \<^verbatim>\<open>Submitted to Office\<close>, else \<^verbatim>\<open>Active\<close>. After \<^verbatim>\<open>item_replacement\<close> the header
  keeps its status when every line is \<^verbatim>\<open>Ready for Delivery\<close> or \<^verbatim>\<open>DISPATCHED\<close>;
  otherwise, with several lines it follows the same policy, and with a single line it
  is not mirrored but becomes \<^verbatim>\<open>Partially Closed\<close> when that line is
  \<^verbatim>\<open>Submitted to Office\<close> and \<^verbatim>\<open>Active\<close> in every other case.
\<close>

theorem header_status_after_recompute:
  assumes "items d code = Some it" and "orders d docname = Some so"
  shows "(get_all_items d docname \<noteq> [] \<and> distinct (map name (order_items d))
            \<and> (length (get_all_items d docname) = 1 \<or> child_name \<in> name ` set (order_items d))
          \<longrightarrow> (\<exists>d'. update_status_to_pickup code docname child_name d = (True, d')
                 \<and> map_option status (orders d' docname) =
                     Some (spec_header_status (map child_status (get_all_items d' docname)))))
       \<and> (items d new_item \<noteq> None
          \<longrightarrow> (\<exists>d'. item_replacement code new_item date master docname old_status reason d
                        = Inr (True, d')
                 \<and> map_option status (orders d' docname) =
                     Some (let sts = map child_status (get_all_items d' docname)
                           in if \<not> replacement_recomputes sts then status so
                              else if length sts = 1
                                   then (if sts = [''Submitted to Office'']
                                         then ''Partially Closed'' else ''Active'')
                                   else spec_header_status sts)))"
proof (intro conjI impI)
  assume "get_all_items d docname \<noteq> [] \<and> distinct (map name (order_items d))
            \<and> (length (get_all_items d docname) = 1 \<or> child_name \<in> name ` set (order_items d))"
  then show "\<exists>d'. update_status_to_pickup code docname child_name d = (True, d')
                 \<and> map_option status (orders d' docname) =
                     Some (spec_header_status (map child_status (get_all_items d' docname)))"
    using update_status_to_pickup_header [OF assms, of child_name] by blast
next
  assume n: "items d new_item \<noteq> None"
  have c: "items d code \<noteq> None" using assms(1) by simp
  show "\<exists>d'. item_replacement code new_item date master docname old_status reason d
                        = Inr (True, d')
                 \<and> map_option status (orders d' docname) =
                     Some (let sts = map child_status (get_all_items d' docname)
                           in if \<not> replacement_recomputes sts then status so
                              else if length sts = 1
                                   then (if sts = [''Submitted to Office'']
                                         then ''Partially Closed'' else ''Active'')
                                   else spec_header_status sts)"
    by (rule item_replacement_header [OF c n assms(2)])
qed

theorem header_status_after_recompute_witness:
  "(\<exists>d'. update_status_to_pickup ''BED-01'' ''SO-0001'' ''row-1'' approval_db = (True, d')
       \<and> map_option status (orders d' ''SO-0001'') =
           Some (spec_header_status (map child_status (get_all_items d' ''SO-0001''))))
   \<and> (\<exists>d'. item_replacement ''BED-01'' ''BED-03'' ''2024-02-01'' ''SO-0001'' ''SO-0001''
              ''Available'' None approval_db = Inr (True, d')
       \<and> map_option status (orders d' ''SO-0001'') =
           Some (let sts = map child_status (get_all_items d' ''SO-0001'')
                 in if \<not> replacement_recomputes sts then ''Pending''
                    else if length sts = 1
                         then (if sts = [''Submitted to Office'']
                               then ''Partially Closed'' else ''Active'')
                         else spec_header_status sts))"
proof -
  have h1: "items approval_db ''BED-01'' = Some item0"
    by (simp add: approval_db_def db0_def)
  have h2: "orders approval_db ''SO-0001'' = Some (order0 \<lparr> status := ''Pending'' \<rparr>)"
    by (simp add: approval_db_def db0_def)
  have h3: "get_all_items approval_db ''SO-0001'' = [row1, row2, row3]"
    by (simp add: get_all_items_def approval_db_def db0_def row1_def row2_def row3_def line0_def)
  have h4: "distinct (map name (order_items approval_db))"
    by (simp add: approval_db_def db0_def row1_def row2_def row3_def line0_def)
  have h5: "''row-1'' \<in> name ` set (order_items approval_db)"
    by (simp add: approval_db_def db0_def row1_def row2_def row3_def line0_def)
  have h6: "items approval_db ''BED-03'' \<noteq> None"
    by (simp add: approval_db_def db0_def)
  have h7: "status (order0 \<lparr> status := ''Pending'' \<rparr>) = ''Pending''" by simp
  from header_status_after_recompute [OF h1 h2, of "''row-1''" "''BED-03''" "''2024-02-01''"
      "''SO-0001''" "''Available''" None]
  show ?thesis unfolding h7 using h3 h4 h5 h6 by simp
qed

text \<open>
  C2 as stated fails for \<^verbatim>\<open>item_replacement\<close>: on an order with a single line in
  \<^verbatim>\<open>Ready for Pickup\<close> the header becomes \<^verbatim>\<open>Active\<close>, not the line's sub-status.
\<close>

theorem item_replacement_single_line_not_mirrored:
  "item_replacement ''BED-01'' ''BED-02'' ''2024-02-01'' ''SO-0001'' ''SO-0001'' ''Available''
      None single_db = Inr (True, single_db_replaced)
   \<and> header_and_lines ''SO-0001'' single_db_replaced = (Some ''Active'', [''Ready for Pickup''])"
  by (simp add: item_replacement_def item_replacement_body_def replacement_recomputes_def
      replacement_vote_def get_all_items_def header_and_lines_def single_db_def
      single_db_replaced_def db0_def row1_def line0_def item0_def order0_def)

subsection \<open>C3: the classification of the payment and deposit status\<close>

text \<open>
  C3, as the code has it. Recomputing the payment status of an existing order
  classifies it three ways: \<^verbatim>\<open>Paid\<close> when the outstanding amount (total minus paid)
  is 0, \<^verbatim>\<open>UnPaid\<close> when the paid amount is 0, \<^verbatim>\<open>Partially Paid\<close> otherwise, the first
  test that holds deciding. When the order's \<^verbatim>\<open>security_deposit\<close> reads as a number,
  the combined recomputation succeeds, sets the same payment status and classifies
  \<^verbatim>\<open>security_deposit_status\<close> the same way, with the label \<^verbatim>\<open>Unpaid\<close> and with the sum
  of the received Journal Entries as the paid amount. When the deposit is \<^verbatim>\<open>None\<close> or
  no number, the combined recomputation fails and saves nothing.
\<close>

theorem payment_status_classification:
  assumes "orders d docname = Some so"
  shows "(\<exists>so'' d''.
            validate_and_update_payment_status docname d
              = Inr (rounded_total so - advance_paid so, d'')
          \<and> orders d'' docname = Some so''
          \<and> payment_status so'' =
                (if rounded_total so - advance_paid so = 0 then ''Paid''
                 else if advance_paid so = 0 then ''UnPaid''
                 else ''Partially Paid''))
       \<and> (security_deposit so = Data (Some deposit) \<longrightarrow>
           (\<exists>so' d'.
              validate_and_update_payment_and_security_deposit_status docname d = Inr (True, d')
            \<and> orders d' docname = Some so'
            \<and> payment_status so' =
                 (if rounded_total so - advance_paid so = 0 then ''Paid''
                  else if advance_paid so = 0 then ''UnPaid''
                  else ''Partially Paid'')
            \<and> paid_security_deposite_amount so' =
                 sum_list (map total_debit (filter (\<lambda>j. sales_order_id j = docname
                    \<and> security_deposite_type j = ''Cash Received From Client'')
                    (journal_entries d)))
            \<and> security_deposit_status so' =
                 (if deposit - paid_security_deposite_amount so' = 0 then ''Paid''
                  else if paid_security_deposite_amount so' = 0 then ''Unpaid''
                  else ''Partially Paid'')))
       \<and> (security_deposit so = Null \<or> security_deposit so = Data None \<longrightarrow>
           (\<exists>e. validate_and_update_payment_and_security_deposit_status docname d
                   = Inl (Wrapped ''Failed to update payment status. Error: '' e)))"
proof (intro conjI impI)
  show "\<exists>so'' d''.
            validate_and_update_payment_status docname d
              = Inr (rounded_total so - advance_paid so, d'')
          \<and> orders d'' docname = Some so''
          \<and> payment_status so'' =
                (if rounded_total so - advance_paid so = 0 then ''Paid''
                 else if advance_paid so = 0 then ''UnPaid''
                 else ''Partially Paid'')"
    using assms by (simp add: validate_and_update_payment_status_def Let_def)
next
  assume "security_deposit so = Data (Some deposit)"
  then show "\<exists>so' d'.
              validate_and_update_payment_and_security_deposit_status docname d = Inr (True, d')
            \<and> orders d' docname = Some so'
            \<and> payment_status so' =
                 (if rounded_total so - advance_paid so = 0 then ''Paid''
                  else if advance_paid so = 0 then ''UnPaid''
                  else ''Partially Paid'')
            \<and> paid_security_deposite_amount so' =
                 sum_list (map total_debit (filter (\<lambda>j. sales_order_id j = docname
                    \<and> security_deposite_type j = ''Cash Received From Client'')
                    (journal_entries d)))
            \<and> security_deposit_status so' =
                 (if deposit - paid_security_deposite_amount so' = 0 then ''Paid''
                  else if paid_security_deposite_amount so' = 0 then ''Unpaid''
                  else ''Partially Paid'')"
    using assms
    by (simp add: validate_and_update_payment_and_security_deposit_status_def Let_def)
next
  assume "security_deposit so = Null \<or> security_deposit so = Data None"
  then show "\<exists>e. validate_and_update_payment_and_security_deposit_status docname d
                   = Inl (Wrapped ''Failed to update payment status. Error: '' e)"
    using assms
    by (auto simp: validate_and_update_payment_and_security_deposit_status_def Let_def)
qed

theorem payment_status_classification_witness:
  "(\<exists>so' d'.
       validate_and_update_payment_and_security_deposit_status ''SO-0001'' unpaid_db
         = Inr (True, d')
     \<and> orders d' ''SO-0001'' = Some so'
     \<and> payment_status so' = ''UnPaid''
     \<and> paid_security_deposite_amount so' = 0
     \<and> security_deposit_status so' = ''Unpaid'')
   \<and> (\<exists>e. validate_and_update_payment_and_security_deposit_status ''SO-0001'' january_store
             = Inl (Wrapped ''Failed to update payment status. Error: '' e))"
proof -
  let ?so = "order0 \<lparr> rounded_total := 100, advance_paid := 0,
                       security_deposit := Data (Some 50) \<rparr>"
  have h: "orders unpaid_db ''SO-0001'' = Some ?so"
    by (simp add: unpaid_db_def db0_def)
  have dep: "security_deposit ?so = Data (Some 50)" by simp
  have j: "journal_entries unpaid_db = []" by (simp add: unpaid_db_def db0_def)
  have v: "rounded_total ?so - advance_paid ?so \<noteq> 0" "advance_paid ?so = 0" by simp_all
  from payment_status_classification [OF h, THEN conjunct2, THEN conjunct1, rule_format, OF dep]
  obtain so' d' where
    r: "validate_and_update_payment_and_security_deposit_status ''SO-0001'' unpaid_db
          = Inr (True, d')"
    and o: "orders d' ''SO-0001'' = Some so'"
    and ps: "payment_status so' =
                 (if rounded_total ?so - advance_paid ?so = 0 then ''Paid''
                  else if advance_paid ?so = 0 then ''UnPaid''
                  else ''Partially Paid'')"
    and pd: "paid_security_deposite_amount so' =
                 sum_list (map total_debit (filter (\<lambda>j. sales_order_id j = ''SO-0001''
                    \<and> security_deposite_type j = ''Cash Received From Client'')
                    (journal_entries unpaid_db)))"
    and ds: "security_deposit_status so' =
                 (if 50 - paid_security_deposite_amount so' = 0 then ''Paid''
                  else if paid_security_deposite_amount so' = 0 then ''Unpaid''
                  else ''Partially Paid'')"
    by blast
  have ps': "payment_status so' = ''UnPaid''" using ps v by simp
  have pd': "paid_security_deposite_amount so' = 0" using pd unfolding j by simp
  have ds': "security_deposit_status so' = ''Unpaid''" using ds unfolding pd' by simp
  have first: "\<exists>so' d'.
       validate_and_update_payment_and_security_deposit_status ''SO-0001'' unpaid_db
         = Inr (True, d')
     \<and> orders d' ''SO-0001'' = Some so'
     \<and> payment_status so' = ''UnPaid''
     \<and> paid_security_deposite_amount so' = 0
     \<and> security_deposit_status so' = ''Unpaid''"
    using r o ps' pd' ds' by (intro exI conjI)
  have h2: "orders january_store ''SO-0001'' = Some january"
    by (simp add: january_store_def db0_def)
  have nd: "security_deposit january = Null \<or> security_deposit january = Data None"
    by (simp add: january_def order0_def)
  note second = payment_status_classification [OF h2, THEN conjunct2, THEN conjunct2,
      rule_format, OF nd]
  from first second show ?thesis by (rule conjI)
qed

text \<open>
  C3 as stated fails in the label: with nothing paid, \<^verbatim>\<open>payment_status\<close> becomes
  \<^verbatim>\<open>UnPaid\<close>, which is not the string \<^verbatim>\<open>Unpaid\<close>. It fails as well for an order without
  a security deposit, for which the combined recomputation raises and sets no status.
\<close>

theorem payment_status_unpaid_label:
  "validate_and_update_payment_and_security_deposit_status ''SO-0001'' unpaid_db
     = Inr (True, unpaid_db_updated)
   \<and> map_option payment_status (orders unpaid_db_updated ''SO-0001'') = Some ''UnPaid''
   \<and> map_option payment_status (orders unpaid_db_updated ''SO-0001'') \<noteq> Some ''Unpaid''
   \<and> validate_and_update_payment_and_security_deposit_status ''SO-0001'' january_store
     = Inl (Wrapped ''Failed to update payment status. Error: '' TypeError)"
  by (simp add: validate_and_update_payment_and_security_deposit_status_def Let_def
      unpaid_db_def unpaid_db_updated_def january_store_def january_def db0_def order0_def)

subsection \<open>C4: the lines of a Delivery Note\<close>

lemma condition_plain:
  assumes "\<forall>a. args = Some a \<longrightarrow> delivery_dates a = [] \<and> until_delivery_date a = []"
  shows "condition args {} doc =
     (\<bar>delivered_qty doc\<bar> < \<bar>qty doc\<bar> \<and> delivered_by_supplier doc \<noteq> 1, {})"
  using assms by (cases args) (simp_all add: condition_def)

lemma map_order_items_plain:
  assumes "\<forall>a. args = Some a \<longrightarrow> delivery_dates a = [] \<and> until_delivery_date a = []"
  shows "map_order_items args {} xs =
     (map (\<lambda>l. update_item l (mapped_dn_item l))
        (filter (\<lambda>l. \<bar>delivered_qty l\<bar> < \<bar>qty l\<bar> \<and> delivered_by_supplier l \<noteq> 1) xs), {})"
  by (induction xs) (simp_all add: condition_plain [OF assms])

text \<open>
  C4, as the code has it. With no delivery-date filter, no reserved-stock selection
  and item mapping not skipped, the Delivery Note made from a submitted order has
  exactly one row for each line with \<open>|delivered_qty| < |qty|\<close> and
  \<^verbatim>\<open>delivered_by_supplier\<close> other than 1 (no document at all in a bulk transaction
  without such a line); and the row made from a line has the line's name as
  \<^verbatim>\<open>so_detail\<close>, quantity \<open>qty - delivered_qty\<close> and amount
  \<open>(qty - delivered_qty) * rate\<close>, whatever the line's own amount is.
\<close>

theorem delivery_note_lines:
  assumes "orders d source_name = Some so" and "docstatus so = 1"
    and "\<not> for_reserved_stock (effective_kwargs args kwargs)"
    and "\<not> skip_item_mapping (effective_kwargs args kwargs)"
    and "\<forall>a. args = Some a \<longrightarrow> delivery_dates a = [] \<and> until_delivery_date a = []"
  shows "make_delivery_note d args bulk_transaction sre_reserved_qty_details sre_list
           source_name kwargs =
       (let included = filter (\<lambda>l. \<bar>delivered_qty l\<bar> < \<bar>qty l\<bar> \<and> delivered_by_supplier l \<noteq> 1)
                         (get_all_items d source_name);
            target_items = map (\<lambda>l. update_item l (mapped_dn_item l)) included
        in if bulk_transaction \<and> target_items = [] then Inr None else Inr (Some target_items))
     \<and> (\<forall>l. so_detail (update_item l (mapped_dn_item l)) = name l
            \<and> dn_qty (update_item l (mapped_dn_item l)) = qty l - delivered_qty l
            \<and> dn_amount (update_item l (mapped_dn_item l)) = (qty l - delivered_qty l) * rate l)"
proof
  show "make_delivery_note d args bulk_transaction sre_reserved_qty_details sre_list
           source_name kwargs =
       (let included = filter (\<lambda>l. \<bar>delivered_qty l\<bar> < \<bar>qty l\<bar> \<and> delivered_by_supplier l \<noteq> 1)
                         (get_all_items d source_name);
            target_items = map (\<lambda>l. update_item l (mapped_dn_item l)) included
        in if bulk_transaction \<and> target_items = [] then Inr None else Inr (Some target_items))"
    unfolding make_delivery_note_def Let_def
    using assms(1-4) by (simp add: map_order_items_plain [OF assms(5)])
next
  show "\<forall>l. so_detail (update_item l (mapped_dn_item l)) = name l
            \<and> dn_qty (update_item l (mapped_dn_item l)) = qty l - delivered_qty l
            \<and> dn_amount (update_item l (mapped_dn_item l)) = (qty l - delivered_qty l) * rate l"
    by (simp add: update_item_def mapped_dn_item_def)
qed

theorem delivery_note_lines_witness:
  "make_delivery_note approval_db None False {} [] ''SO-0001'' None =
     Inr (Some (map (\<lambda>l. update_item l (mapped_dn_item l)) [row1, row2, row3]))
   \<and> dn_qty (update_item row1 (mapped_dn_item row1)) = 1
   \<and> dn_amount (update_item row1 (mapped_dn_item row1)) = 100"
proof -
  have h1: "orders approval_db ''SO-0001'' = Some (order0 \<lparr> status := ''Pending'' \<rparr>)"
    by (simp add: approval_db_def db0_def)
  have h2: "docstatus (order0 \<lparr> status := ''Pending'' \<rparr>) = 1" by (simp add: order0_def)
  have h3: "\<not> for_reserved_stock (effective_kwargs None None)"
    by (simp add: effective_kwargs_def)
  have h4: "\<not> skip_item_mapping (effective_kwargs None None)"
    by (simp add: effective_kwargs_def)
  have h5: "\<forall>a. (None :: flag_args option) = Some a
      \<longrightarrow> delivery_dates a = [] \<and> until_delivery_date a = []" by simp
  have g: "get_all_items approval_db ''SO-0001'' = [row1, row2, row3]"
    by (simp add: get_all_items_def approval_db_def db0_def row1_def row2_def row3_def line0_def)
  have q: "filter (\<lambda>l. \<bar>delivered_qty l\<bar> < \<bar>qty l\<bar> \<and> delivered_by_supplier l \<noteq> 1)
      [row1, row2, row3] = [row1, row2, row3]"
    by (simp add: row1_def row2_def row3_def line0_def)
  have v: "qty row1 - delivered_qty row1 = 1" "(qty row1 - delivered_qty row1) * rate row1 = 100"
    by (simp_all add: row1_def line0_def)
  from delivery_note_lines [OF h1 h2 h3 h4 h5, of False "{}" "[]"]
  show ?thesis unfolding g q Let_def using v by simp
qed

text \<open>
  C4 as stated fails when the caller asks to skip the item mapping: no line is
  included, although the only conditions of the claim hold for every line.
\<close>

theorem delivery_note_skip_item_mapping:
  "make_delivery_note approval_db None False {} [] ''SO-0001''
      (Some \<lparr>for_reserved_stock = False, skip_item_mapping = True\<rparr>) = Inr (Some [])
   \<and> get_all_items approval_db ''SO-0001'' = [row1, row2, row3]
   \<and> \<bar>delivered_qty row1\<bar> < \<bar>qty row1\<bar> \<and> delivered_by_supplier row1 \<noteq> 1"
  by (simp add: make_delivery_note_def effective_kwargs_def get_all_items_def approval_db_def
      db0_def order0_def row1_def row2_def row3_def line0_def)

subsection \<open>C5 and C6: cancellation\<close>





text \<open>
  C6. Cancelling a \<^verbatim>\<open>Closed\<close> order fails with the closed-order error and leaves the
  header as it was, but the Item of its line has already been set from \<^verbatim>\<open>Rented Out\<close>
  to \<^verbatim>\<open>Available\<close> and committed: the failed cancellation has changed state.
\<close>

theorem on_cancel_closed_changes_items:
  "on_cancel (order0\<lparr>status := ''Closed''\<rparr>) [row1] rented_items =
     (Inl (ValidationError ''Closed order cannot be cancelled. Unclose to cancel.''),
      order0\<lparr>status := ''Closed''\<rparr>,
      [''BED-01'' \<mapsto> item0 \<lparr> item_status := ''Available'' \<rparr>])
   \<and> rented_items ''BED-01'' = Some (item0 \<lparr> item_status := ''Rented Out'' \<rparr>)"
  by (simp add: on_cancel_def rented_items_def row1_def line0_def item0_def order0_def)

subsection \<open>C7: payments that are refused\<close>

text \<open>
  C7. A call of \<^verbatim>\<open>process_payment\<close> with a negative rental or deposit payment amount,
  or with a deposit payment above the outstanding deposit, or with a rental payment
  above the balance, raises an error and leaves the store as it was: no Journal Entry
  and no Payment Entry is created.
\<close>

theorem process_payment_refuses:
  assumes "(\<exists>r. rental_payment_amount = Some r \<and> r < 0)
         \<or> (\<exists>s. security_deposit_payment_amount = Some s \<and> s < 0)
         \<or> (\<exists>s out. security_deposit_payment_amount = Some s
                \<and> outstanding_amount = Some out \<and> s > out)
         \<or> (\<exists>r bal. rental_payment_amount = Some r \<and> balance_amount_arg = Some bal \<and> r > bal)"
  shows "\<exists>e. process_payment je_raised pe_raised balance_amount_arg outstanding_amount
            rental_payment_amount security_deposit_payment_amount sales_order_name
            master_order_id d = (Inl e, d)"
proof -
  have "\<exists>e. process_payment_try je_raised pe_raised balance_amount_arg outstanding_amount
            rental_payment_amount security_deposit_payment_amount sales_order_name
            master_order_id d = (Inl e, d)"
    using assms unfolding process_payment_try_def
    by (auto split: option.splits)
  then show ?thesis unfolding process_payment_def by auto
qed

theorem process_payment_refuses_witness:
  "(\<exists>e. process_payment None None (Some 1000) (Some 50) (Some (- 5)) (Some 0) ''SO-0001''
            ''SO-0001'' unpaid_db = (Inl e, unpaid_db))
   \<and> (\<exists>e. process_payment None None (Some 1000) (Some 50) (Some 0) (Some 60) ''SO-0001''
            ''SO-0001'' unpaid_db = (Inl e, unpaid_db))"
proof -
  have a: "(\<exists>r. Some (- 5 :: rat) = Some r \<and> r < 0)
         \<or> (\<exists>s. Some (0 :: rat) = Some s \<and> s < 0)
         \<or> (\<exists>s out. Some (0 :: rat) = Some s \<and> Some (50 :: rat) = Some out \<and> s > out)
         \<or> (\<exists>r bal. Some (- 5 :: rat) = Some r \<and> Some (1000 :: rat) = Some bal \<and> r > bal)"
    by simp
  have b: "(\<exists>r. Some (0 :: rat) = Some r \<and> r < 0)
         \<or> (\<exists>s. Some (60 :: rat) = Some s \<and> s < 0)
         \<or> (\<exists>s out. Some (60 :: rat) = Some s \<and> Some (50 :: rat) = Some out \<and> s > out)
         \<or> (\<exists>r bal. Some (0 :: rat) = Some r \<and> Some (1000 :: rat) = Some bal \<and> r > bal)"
    by simp
  show ?thesis
    using process_payment_refuses [OF a] process_payment_refuses [OF b] by blast
qed

subsection \<open>C8: the Pick List\<close>

lemma update_packed_item_qty_ok:
  assumes "\<forall>l \<in> set lines. name l = parent_detail_docname p \<longrightarrow> qty l \<noteq> 0"
  shows "\<exists>t'. update_packed_item_qty p lines t = Inr t'
           \<and> product_bundle_item t' = product_bundle_item t"
  using assms by (induction lines) (auto simp: Let_def)

lemma update_packed_item_qty_bundle:
  "update_packed_item_qty p lines t = Inr t' \<Longrightarrow> product_bundle_item t' = product_bundle_item t"
  by (induction lines) (auto simp: Let_def split: if_splits)

lemma pick_list_from_packed_items_bundle:
  "pick_list_from_packed_items lines ps = Inr ts \<Longrightarrow>
     \<forall>t \<in> set ts. product_bundle_item t \<noteq> None"
proof (induction ps arbitrary: ts)
  case Nil
  then show ?case by simp
next
  case (Cons p ps)
  from Cons.prems obtain t ts' where
    t: "update_packed_item_qty p lines
          \<lparr>pl_sales_order = pi_parent p, sales_order_item = pi_name p,
           product_bundle_item = Some (parent_detail_docname p),
           pl_item_code = pi_item_code p, pl_qty = pi_qty p, pl_stock_qty = 0\<rparr> = Inr t"
    and ts': "pick_list_from_packed_items lines ps = Inr ts'"
    and ts: "ts = t # ts'"
    by (auto split: sum.splits)
  from update_packed_item_qty_bundle [OF t] have "product_bundle_item t \<noteq> None" by simp
  with Cons.IH [OF ts'] ts show ?case by simp
qed

lemma pick_list_from_packed_items_ok:
  assumes "\<forall>p \<in> set ps. \<forall>l \<in> set lines. name l = parent_detail_docname p \<longrightarrow> qty l \<noteq> 0"
  shows "\<exists>ts. pick_list_from_packed_items lines ps = Inr ts"
  using assms
proof (induction ps)
  case Nil
  then show ?case by simp
next
  case (Cons p ps)
  then have "\<forall>l \<in> set lines. name l = parent_detail_docname p \<longrightarrow> qty l \<noteq> 0" by simp
  from update_packed_item_qty_ok [OF this] obtain t where
    "update_packed_item_qty p lines
          \<lparr>pl_sales_order = pi_parent p, sales_order_item = pi_name p,
           product_bundle_item = Some (parent_detail_docname p),
           pl_item_code = pi_item_code p, pl_qty = pi_qty p, pl_stock_qty = 0\<rparr> = Inr t"
    by blast
  moreover from Cons obtain ts where "pick_list_from_packed_items lines ps = Inr ts" by auto
  ultimately show ?case by simp
qed

text \<open>
  C8. When a line of the order has reserved stock, \<^verbatim>\<open>create_pick_list\<close> raises and no
  Pick List is made. Otherwise, for a submitted order (and no bundle line of quantity 0
  under a Packed Item, where the source would divide by zero) the Pick List is made,
  and no line whose item code is a product bundle has a row in it: the only rows that
  refer to such a line are those of its Packed Items.
\<close>

theorem pick_list_guard_and_bundles:
  assumes "orders d source_name = Some so"
    and "distinct (map name (order_items d))"
  shows "((\<exists>item \<in> set (get_all_items d source_name). stock_reserved_qty item > 0) \<longrightarrow>
            create_pick_list is_product_bundle d source_name =
              Inl (ValidationError
                 (''Cannot create a pick list for Sales Order <strong>'' @ source_name
                  @ ''</strong> because it has reserved stock. Please unreserve the stock in order to create a pick list.'')))
       \<and> (\<not> (\<exists>item \<in> set (get_all_items d source_name). stock_reserved_qty item > 0)
            \<and> docstatus so = 1
            \<and> (\<forall>p \<in> set (packed_items d). \<forall>l \<in> set (get_all_items d source_name).
                  pi_parent p = source_name \<and> name l = parent_detail_docname p \<longrightarrow> qty l \<noteq> 0)
          \<longrightarrow> (\<exists>rows. create_pick_list is_product_bundle d source_name = Inr rows
                 \<and> (\<forall>l \<in> set (get_all_items d source_name). is_product_bundle (item_code l) \<longrightarrow>
                       \<not> (\<exists>p \<in> set rows. product_bundle_item p = None
                                          \<and> sales_order_item p = name l))))"
proof (intro conjI impI)
  assume "\<exists>item \<in> set (get_all_items d source_name). stock_reserved_qty item > 0"
  then show "create_pick_list is_product_bundle d source_name =
              Inl (ValidationError
                 (''Cannot create a pick list for Sales Order <strong>'' @ source_name
                  @ ''</strong> because it has reserved stock. Please unreserve the stock in order to create a pick list.''))"
    using assms(1) by (simp add: create_pick_list_def validate_sales_order_def)
next
  let ?lines = "get_all_items d source_name"
  let ?ps = "filter (\<lambda>p. pi_parent p = source_name) (packed_items d)"
  assume a: "\<not> (\<exists>item \<in> set ?lines. stock_reserved_qty item > 0)
            \<and> docstatus so = 1
            \<and> (\<forall>p \<in> set (packed_items d). \<forall>l \<in> set ?lines.
                  pi_parent p = source_name \<and> name l = parent_detail_docname p \<longrightarrow> qty l \<noteq> 0)"
  then have "\<forall>p \<in> set ?ps. \<forall>l \<in> set ?lines. name l = parent_detail_docname p \<longrightarrow> qty l \<noteq> 0"
    by auto
  from pick_list_from_packed_items_ok [OF this] obtain packed where
    packed: "pick_list_from_packed_items ?lines ?ps = Inr packed" by blast
  let ?rows = "map pick_list_from_item (filter (should_pick_order_item is_product_bundle) ?lines)
                 @ packed"
  have res: "create_pick_list is_product_bundle d source_name = Inr ?rows"
    using assms(1) a packed by (simp add: create_pick_list_def validate_sales_order_def)
  have dl: "distinct (map name ?lines)"
    unfolding get_all_items_def using assms(2) by (rule distinct_map_filter)
  have pb: "\<forall>t \<in> set packed. product_bundle_item t \<noteq> None"
    by (rule pick_list_from_packed_items_bundle [OF packed])
  have "\<forall>l \<in> set ?lines. is_product_bundle (item_code l) \<longrightarrow>
          \<not> (\<exists>p \<in> set ?rows. product_bundle_item p = None \<and> sales_order_item p = name l)"
  proof (intro ballI impI notI)
    fix l assume l: "l \<in> set ?lines" and b: "is_product_bundle (item_code l)"
    assume "\<exists>p \<in> set ?rows. product_bundle_item p = None \<and> sales_order_item p = name l"
    then obtain p where p: "p \<in> set ?rows" "product_bundle_item p = None"
      "sales_order_item p = name l" by blast
    from p(1,2) pb obtain x where x: "x \<in> set ?lines" "should_pick_order_item is_product_bundle x"
      "p = pick_list_from_item x" by auto
    from x(3) p(3) have "name x = name l"
      by (simp add: pick_list_from_item_def update_item_quantity_def)
    with dl x(1) l have "x = l" by (meson distinct_map inj_onD)
    with x(2) b show False by (simp add: should_pick_order_item_def)
  qed
  with res show "\<exists>rows. create_pick_list is_product_bundle d source_name = Inr rows
                 \<and> (\<forall>l \<in> set ?lines. is_product_bundle (item_code l) \<longrightarrow>
                       \<not> (\<exists>p \<in> set rows. product_bundle_item p = None
                                          \<and> sales_order_item p = name l))"
    by blast
qed

theorem pick_list_guard_and_bundles_witness:
  "create_pick_list bed_set_is_bundle reserved_db ''SO-0001'' =
      Inl (ValidationError
         (''Cannot create a pick list for Sales Order <strong>'' @ ''SO-0001''
          @ ''</strong> because it has reserved stock. Please unreserve the stock in order to create a pick list.''))
   \<and> (\<exists>rows. create_pick_list bed_set_is_bundle bundle_db ''SO-0001'' = Inr rows
         \<and> map sales_order_item rows = [''row-1'', ''packed-1'']
         \<and> \<not> (\<exists>p \<in> set rows. product_bundle_item p = None \<and> sales_order_item p = ''row-2''))"
proof -
  have r1: "orders reserved_db ''SO-0001'' = Some order0"
    by (simp add: reserved_db_def db0_def)
  have r2: "distinct (map name (order_items reserved_db))"
    by (simp add: reserved_db_def db0_def row1_def row2_def line0_def)
  have r3: "\<exists>item \<in> set (get_all_items reserved_db ''SO-0001''). stock_reserved_qty item > 0"
    by (simp add: get_all_items_def reserved_db_def db0_def row1_def row2_def line0_def)
  have b1: "orders bundle_db ''SO-0001'' = Some order0"
    by (simp add: bundle_db_def db0_def)
  have b2: "distinct (map name (order_items bundle_db))"
    by (simp add: bundle_db_def db0_def row1_def row2_def line0_def)
  have g: "get_all_items bundle_db ''SO-0001'' = [row1, row2 \<lparr> item_code := ''BED-SET'' \<rparr>]"
    by (simp add: get_all_items_def bundle_db_def db0_def row1_def row2_def line0_def)
  have b3: "\<not> (\<exists>item \<in> set (get_all_items bundle_db ''SO-0001''). stock_reserved_qty item > 0)
            \<and> docstatus order0 = 1
            \<and> (\<forall>p \<in> set (packed_items bundle_db). \<forall>l \<in> set (get_all_items bundle_db ''SO-0001'').
                  pi_parent p = ''SO-0001'' \<and> name l = parent_detail_docname p \<longrightarrow> qty l \<noteq> 0)"
    unfolding g by (simp add: bundle_db_def db0_def order0_def row1_def row2_def line0_def)
  note t1 = pick_list_guard_and_bundles [OF r1 r2, of bed_set_is_bundle, THEN conjunct1, rule_format, OF r3]
  note t2 = pick_list_guard_and_bundles [OF b1 b2, of bed_set_is_bundle, THEN conjunct2, rule_format, OF b3]
  from t2 obtain rows where
    rows: "create_pick_list bed_set_is_bundle bundle_db ''SO-0001'' = Inr rows"
    and ex: "\<forall>l \<in> set (get_all_items bundle_db ''SO-0001''). bed_set_is_bundle (item_code l) \<longrightarrow>
               \<not> (\<exists>p \<in> set rows. product_bundle_item p = None \<and> sales_order_item p = name l)"
    by blast
  from ex have no: "\<not> (\<exists>p \<in> set rows. product_bundle_item p = None \<and> sales_order_item p = ''row-2'')"
    unfolding g by (simp add: bed_set_is_bundle_def row2_def line0_def)
  have "map sales_order_item rows = [''row-1'', ''packed-1'']"
    using rows
    by (auto simp: create_pick_list_def validate_sales_order_def get_all_items_def
        should_pick_order_item_def pick_list_from_item_def update_item_quantity_def
        bed_set_is_bundle_def bundle_db_def db0_def order0_def row1_def row2_def line0_def
        Let_def)
  with t1 rows no show ?thesis by simp
qed

subsection \<open>C9: remaining quantities\<close>

text \<open>
  C9, as the code has it. In \<^verbatim>\<open>make_material_request\<close> the remaining quantity of a line
  is \<open>qty - requested - max (delivered - received) 0\<close>: only the inner term is clamped
  at zero, and the remaining quantity is at least 0 exactly when
  \<open>requested + max (delivered - received) 0 \<le> qty\<close>; for a submitted order the
  Material Request is made and every row made from a line of the order has a positive
  quantity, since a line is mapped only when its remaining quantity is positive. In
  \<^verbatim>\<open>create_pick_list\<close> the quantity to be picked,
  \<open>qty - max (picked_qty / (conversion_factor or 1)) delivered_qty\<close>, is at least 0
  exactly when neither the picked nor the delivered quantity exceeds \<^verbatim>\<open>qty\<close>.
\<close>

theorem remaining_quantities:
  "(0 \<le> get_remaining_qty requested_item_qty so_item_name so_item_qty so_item_delivered_qty
      \<longleftrightarrow> flt (map_option req_qty (requested_item_qty so_item_name))
            + max (flt so_item_delivered_qty
                     - flt (map_option req_received_qty (requested_item_qty so_item_name))) 0
          \<le> so_item_qty)
   \<and> (orders d source_name = Some so \<and> docstatus so = 1 \<longrightarrow>
        (\<exists>rows. make_material_request bundle_exists requested_item_qty d source_name = Inr rows
           \<and> (\<forall>t \<in> set rows. mr_sales_order_item t \<noteq> None \<longrightarrow> 0 < mr_qty t)))
   \<and> (0 \<le> qty_to_be_picked source
      \<longleftrightarrow> picked_qty source
            / (if conversion_factor source \<noteq> 0 then conversion_factor source else 1)
          \<le> qty source
        \<and> delivered_qty source \<le> qty source)"
proof (intro conjI impI)
  show "0 \<le> get_remaining_qty requested_item_qty so_item_name so_item_qty so_item_delivered_qty
      \<longleftrightarrow> flt (map_option req_qty (requested_item_qty so_item_name))
            + max (flt so_item_delivered_qty
                     - flt (map_option req_received_qty (requested_item_qty so_item_name))) 0
          \<le> so_item_qty"
    unfolding get_remaining_qty_def by linarith
next
  assume a: "orders d source_name = Some so \<and> docstatus so = 1"
  let ?rem = "\<lambda>item. get_remaining_qty requested_item_qty (name item) (qty item)
                        (Some (delivered_qty item))"
  let ?lines = "filter (\<lambda>item. \<not> bundle_exists (item_code item) \<and> ?rem item > 0)
                  (get_all_items d source_name)"
  let ?packed = "filter (\<lambda>p. pi_parent p = source_name) (packed_items d)"
  let ?rows = "map (material_request_from_item requested_item_qty) ?lines
                 @ map (material_request_from_packed_item requested_item_qty) ?packed"
  have res: "make_material_request bundle_exists requested_item_qty d source_name = Inr ?rows"
    using a by (simp add: make_material_request_def)
  have q: "\<And>item. mr_qty (material_request_from_item requested_item_qty item) = ?rem item"
    by (simp add: material_request_from_item_def update_item_mr_def Let_def)
  have n: "\<And>p. mr_sales_order_item (material_request_from_packed_item requested_item_qty p) = None"
    by (simp add: material_request_from_packed_item_def update_item_mr_def Let_def)
  have "\<forall>t \<in> set ?rows. mr_sales_order_item t \<noteq> None \<longrightarrow> 0 < mr_qty t"
    using q n by auto
  with res show "\<exists>rows. make_material_request bundle_exists requested_item_qty d source_name
                   = Inr rows
           \<and> (\<forall>t \<in> set rows. mr_sales_order_item t \<noteq> None \<longrightarrow> 0 < mr_qty t)"
    by blast
next
  show "0 \<le> qty_to_be_picked source
      \<longleftrightarrow> picked_qty source
            / (if conversion_factor source \<noteq> 0 then conversion_factor source else 1)
          \<le> qty source
        \<and> delivered_qty source \<le> qty source"
    unfolding qty_to_be_picked_def Let_def by (simp add: max_def) linarith
qed

theorem remaining_quantities_witness:
  "\<exists>rows. make_material_request no_bundles over_requested approval_db ''SO-0001'' = Inr rows
     \<and> map mr_sales_order_item rows = [Some ''row-2'', Some ''row-3'']
     \<and> (\<forall>t \<in> set rows. mr_sales_order_item t \<noteq> None \<longrightarrow> 0 < mr_qty t)"
proof -
  have h: "orders approval_db ''SO-0001'' = Some (order0 \<lparr> status := ''Pending'' \<rparr>)
           \<and> docstatus (order0 \<lparr> status := ''Pending'' \<rparr>) = 1"
    by (simp add: approval_db_def db0_def order0_def)
  from remaining_quantities [of over_requested "''row-1''" 10 "Some 0" approval_db "''SO-0001''"
      "order0 \<lparr> status := ''Pending'' \<rparr>" no_bundles row1, THEN conjunct2, THEN conjunct1,
      rule_format, OF h]
  obtain rows where
    rows: "make_material_request no_bundles over_requested approval_db ''SO-0001'' = Inr rows"
    and pos: "\<forall>t \<in> set rows. mr_sales_order_item t \<noteq> None \<longrightarrow> 0 < mr_qty t"
    by blast
  have g: "get_all_items approval_db ''SO-0001'' = [row1, row2, row3]"
    by (simp add: get_all_items_def approval_db_def db0_def row1_def row2_def row3_def line0_def)
  have p: "packed_items approval_db = []" by (simp add: approval_db_def db0_def)
  have q1: "get_remaining_qty over_requested (name row1) (qty row1) (Some (delivered_qty row1)) = - 14"
    by (simp add: get_remaining_qty_def over_requested_def row1_def line0_def)
  have q2: "get_remaining_qty over_requested (name row2) (qty row2) (Some (delivered_qty row2)) = 1"
    by (simp add: get_remaining_qty_def over_requested_def row2_def line0_def)
  have q3: "get_remaining_qty over_requested (name row3) (qty row3) (Some (delivered_qty row3)) = 1"
    by (simp add: get_remaining_qty_def over_requested_def row3_def line0_def)
  have e: "make_material_request no_bundles over_requested approval_db ''SO-0001'' =
      Inr [material_request_from_item over_requested row2,
           material_request_from_item over_requested row3]"
    unfolding make_material_request_def g p using h
    by (simp add: q1 q2 q3 no_bundles_def)
  have n2: "mr_sales_order_item (material_request_from_item over_requested row2) = Some ''row-2''"
    by (simp add: material_request_from_item_def update_item_mr_def Let_def row2_def line0_def)
  have n3: "mr_sales_order_item (material_request_from_item over_requested row3) = Some ''row-3''"
    by (simp add: material_request_from_item_def update_item_mr_def Let_def row3_def line0_def)
  from rows e have "rows = [material_request_from_item over_requested row2,
           material_request_from_item over_requested row3]" by simp
  then have m: "map mr_sales_order_item rows = [Some ''row-2'', Some ''row-3'']"
    using n2 n3 by simp
  show ?thesis
  proof (intro exI conjI)
    show "make_material_request no_bundles over_requested approval_db ''SO-0001'' = Inr rows"
      by (fact rows)
    show "map mr_sales_order_item rows = [Some ''row-2'', Some ''row-3'']" by (fact m)
    show "\<forall>t \<in> set rows. mr_sales_order_item t \<noteq> None \<longrightarrow> 0 < mr_qty t" by (fact pos)
  qed
qed

text \<open>
  C9 as stated fails: a line of quantity 1 for which 15 have been requested has the
  remaining quantity -14, and a line of quantity 10 of which 12 are picked enters the
  Pick List with the quantity -2.
\<close>

theorem remaining_quantity_negative:
  "get_remaining_qty over_requested (name row1) (qty row1) (Some (delivered_qty row1)) = - 14
   \<and> create_pick_list no_bundles overpicked_db ''SO-0001'' =
       Inr [\<lparr>pl_sales_order = ''SO-0001'', sales_order_item = ''row-1'',
             product_bundle_item = None, pl_item_code = ''BED-01'', pl_qty = - 2,
             pl_stock_qty = - 2\<rparr>]"
  by (simp add: get_remaining_qty_def over_requested_def create_pick_list_def
      validate_sales_order_def get_all_items_def should_pick_order_item_def
      pick_list_from_item_def update_item_quantity_def qty_to_be_picked_def no_bundles_def
      overpicked_db_def db0_def order0_def row1_def line0_def Let_def)

subsection \<open>C10: approval stops at the first unavailable Item\<close>

lemma approve_loop_prefix:
  assumes "distinct (map item_code pre)"
    and "\<forall>x \<in> set pre. \<exists>i. items d (item_code x) = Some i \<and> item_status i = ''Available''"
    and "name ` set pre \<subseteq> name ` set (order_items d)"
    and "distinct (map name (order_items d))"
    and "orders d docname = Some so"
    and "rest = [] \<or> item_code (hd rest) \<in> item_code ` set pre
           \<or> (\<exists>i. items d (item_code (hd rest)) = Some i \<and> item_status i \<noteq> ''Available'')"
  shows "approve_loop docname (pre @ rest) d =
     Inr (d\<lparr>items := (\<lambda>c. if c \<in> item_code ` set pre
                           then map_option (\<lambda>i. i\<lparr>item_status := ''Reserved''\<rparr>) (items d c)
                           else items d c),
            order_items := map (\<lambda>x. if name x \<in> name ` set pre
                                     then x\<lparr>child_status := ''Approved''\<rparr> else x) (order_items d),
            orders := (if pre = [] then orders d
                       else (orders d)(docname \<mapsto> so\<lparr>status := ''Approved''\<rparr>))\<rparr>)"
  using assms
proof (induction pre arbitrary: d so)
  case Nil
  then show ?case
    by (cases rest) (auto split: option.splits)
next
  case (Cons x pre)
  from Cons.prems obtain i where i: "items d (item_code x) = Some i" "item_status i = ''Available''"
    by auto
  let ?app = "\<lambda>y. y\<lparr>child_status := ''Approved''\<rparr>"
  let ?rows = "map (\<lambda>y. if name y = name x then ?app y else y) (order_items d)"
  have ur: "update_row (name x) ?app (order_items d) = Some ?rows"
    using Cons.prems by (intro update_row_distinct) auto
  let ?d1 = "d\<lparr>items := (items d)(item_code x \<mapsto> i\<lparr>item_status := ''Reserved''\<rparr>),
               order_items := ?rows,
               orders := (orders d)(docname \<mapsto> so\<lparr>status := ''Approved''\<rparr>)\<rparr>"
  have step: "approve_loop docname ((x # pre) @ rest) d = approve_loop docname (pre @ rest) ?d1"
    using i ur Cons.prems(5) by simp
  have nm: "map name ?rows = map name (order_items d)"
    by (simp add: comp_def if_distrib cong: if_cong)
  have p1: "distinct (map item_code pre)" using Cons.prems by simp
  have nx: "\<forall>y \<in> set pre. item_code y \<noteq> item_code x"
    using Cons.prems(1) by (auto simp: image_iff)
  have p2: "\<forall>y \<in> set pre. \<exists>i. items ?d1 (item_code y) = Some i \<and> item_status i = ''Available''"
  proof
    fix y assume y: "y \<in> set pre"
    with nx have "items ?d1 (item_code y) = items d (item_code y)" by simp
    with Cons.prems(2) y show "\<exists>i. items ?d1 (item_code y) = Some i \<and> item_status i = ''Available''"
      by simp
  qed
  have p3: "name ` set pre \<subseteq> name ` set (order_items ?d1)"
  proof -
    have oi: "order_items ?d1 = ?rows" by simp
    have "name ` set ?rows = set (map name ?rows)" by (simp only: set_map)
    also have "\<dots> = name ` set (order_items d)" unfolding nm by (simp only: set_map)
    finally show ?thesis using Cons.prems(3) unfolding oi by auto
  qed
  have p4: "distinct (map name (order_items ?d1))"
  proof -
    have oi: "order_items ?d1 = ?rows" by simp
    show ?thesis unfolding oi nm using Cons.prems(4) .
  qed
  have p5: "orders ?d1 docname = Some (so\<lparr>status := ''Approved''\<rparr>)" by simp
  have p6: "rest = [] \<or> item_code (hd rest) \<in> item_code ` set pre
           \<or> (\<exists>i. items ?d1 (item_code (hd rest)) = Some i \<and> item_status i \<noteq> ''Available'')"
    using Cons.prems(6) by auto
  note IH = Cons.IH [OF p1 p2 p3 p4 p5 p6]
  have e1: "(\<lambda>c. if c \<in> item_code ` set pre
                then map_option (\<lambda>i. i\<lparr>item_status := ''Reserved''\<rparr>) (items ?d1 c)
                else items ?d1 c)
          = (\<lambda>c. if c \<in> item_code ` set (x # pre)
                then map_option (\<lambda>i. i\<lparr>item_status := ''Reserved''\<rparr>) (items d c)
                else items d c)"
    using i Cons.prems(1) by (auto simp: fun_eq_iff)
  have e2: "map (\<lambda>y. if name y \<in> name ` set pre then ?app y else y) (order_items ?d1)
          = map (\<lambda>y. if name y \<in> name ` set (x # pre) then ?app y else y) (order_items d)"
    by auto
  have e3: "(if pre = [] then orders ?d1
             else (orders ?d1)(docname \<mapsto> so\<lparr>status := ''Approved''\<rparr>\<lparr>status := ''Approved''\<rparr>))
          = (orders d)(docname \<mapsto> so\<lparr>status := ''Approved''\<rparr>)"
    by auto
  show ?case
    unfolding step IH e1 e2 e3 by (simp add: fun_upd_def)
qed

text \<open>
  C10. \<^verbatim>\<open>make_approved\<close> walks the rows of the order in sequence. When the rows are
  \<open>pre @ r # post\<close>, the Items of \<open>pre\<close> are distinct and \<^verbatim>\<open>Available\<close> and the
  Item of \<open>r\<close> is not, the call returns \<^verbatim>\<open>Approved Success\<close>; the Items of \<open>pre\<close>
  are \<^verbatim>\<open>Reserved\<close> and its rows \<^verbatim>\<open>Approved\<close> (nothing is rolled back); \<open>r\<close> and the
  rows after it are as they were, and so is every Item outside \<open>pre\<close>; and when \<open>r\<close>
  is the first row, the store is unchanged.
\<close>

theorem make_approved_stops_at_unavailable:
  assumes rows: "get_all_items d docname = pre @ r # post"
    and names: "distinct (map name (order_items d))"
    and codes: "distinct (map item_code pre)"
    and avail: "\<forall>x \<in> set pre. \<exists>i. items d (item_code x) = Some i \<and> item_status i = ''Available''"
    and unav: "items d (item_code r) = Some i" "item_status i \<noteq> ''Available''"
    and ord: "orders d docname = Some so"
  shows "\<exists>d'. make_approved docname d = Inr (''Approved Success'', d')
      \<and> (\<forall>x \<in> set pre. (\<exists>j. items d' (item_code x) = Some j \<and> item_status j = ''Reserved'')
              \<and> x\<lparr>child_status := ''Approved''\<rparr> \<in> set (get_all_items d' docname))
      \<and> (\<forall>x \<in> set (r # post). x \<in> set (get_all_items d' docname))
      \<and> (\<forall>c. c \<notin> item_code ` set pre \<longrightarrow> items d' c = items d c)
      \<and> (pre = [] \<longrightarrow> d' = d)
      \<and> (pre \<noteq> [] \<longrightarrow> map_option status (orders d' docname) = Some ''Approved'')"
proof -
  let ?app = "\<lambda>x. x\<lparr>child_status := ''Approved''\<rparr>"
  let ?f = "\<lambda>x. if name x \<in> name ` set pre then ?app x else x"
  let ?d' = "d\<lparr>items := (\<lambda>c. if c \<in> item_code ` set pre
                           then map_option (\<lambda>i. i\<lparr>item_status := ''Reserved''\<rparr>) (items d c)
                           else items d c),
            order_items := map ?f (order_items d),
            orders := (if pre = [] then orders d
                       else (orders d)(docname \<mapsto> so\<lparr>status := ''Approved''\<rparr>))\<rparr>"
  have sub: "set (pre @ r # post) \<subseteq> set (order_items d)"
    unfolding rows [symmetric] get_all_items_def by auto
  then have p3: "name ` set pre \<subseteq> name ` set (order_items d)" by auto
  have p6: "r # post = [] \<or> item_code (hd (r # post)) \<in> item_code ` set pre
           \<or> (\<exists>i. items d (item_code (hd (r # post))) = Some i \<and> item_status i \<noteq> ''Available'')"
    using unav by simp
  have loop: "approve_loop docname (pre @ r # post) d = Inr ?d'"
    by (rule approve_loop_prefix [OF codes avail p3 names ord p6])
  have res: "make_approved docname d = Inr (''Approved Success'', ?d')"
    unfolding make_approved_def rows loop by simp
  have dn: "distinct (map name (pre @ r # post))"
    unfolding rows [symmetric] get_all_items_def using names by (rule distinct_map_filter)
  have fpar: "\<And>x. parent (?f x) = parent x" by simp
  have ga: "get_all_items ?d' docname = map ?f (pre @ r # post)"
    unfolding rows [symmetric] get_all_items_def by (simp add: filter_map comp_def)
  have mpre: "map ?f pre = map ?app pre" by simp
  have "\<forall>x \<in> set (r # post). name x \<notin> name ` set pre"
    using dn by (auto simp: image_iff)
  then have mpost: "map ?f (r # post) = r # post"
    by (intro map_idI) auto
  have "map ?f (pre @ r # post) = map ?f pre @ map ?f (r # post)" by (rule map_append)
  then have ga': "get_all_items ?d' docname = map ?app pre @ r # post"
    unfolding ga mpre mpost .
  have c1: "\<forall>x \<in> set pre. (\<exists>j. items ?d' (item_code x) = Some j \<and> item_status j = ''Reserved'')
              \<and> ?app x \<in> set (get_all_items ?d' docname)"
  proof
    fix x assume x: "x \<in> set pre"
    with avail obtain i where "items d (item_code x) = Some i" by auto
    with x have "\<exists>j. items ?d' (item_code x) = Some j \<and> item_status j = ''Reserved''" by simp
    moreover have "?app x \<in> set (get_all_items ?d' docname)" unfolding ga' using x by simp
    ultimately show "(\<exists>j. items ?d' (item_code x) = Some j \<and> item_status j = ''Reserved'')
              \<and> ?app x \<in> set (get_all_items ?d' docname)" by simp
  qed
  have c2: "\<forall>x \<in> set (r # post). x \<in> set (get_all_items ?d' docname)"
    unfolding ga' by auto
  have c3: "\<forall>c. c \<notin> item_code ` set pre \<longrightarrow> items ?d' c = items d c" by simp
  have c4: "pre = [] \<longrightarrow> ?d' = d" by simp
  have c5: "pre \<noteq> [] \<longrightarrow> map_option status (orders ?d' docname) = Some ''Approved''" by simp
  from res c1 c2 c3 c4 c5 show ?thesis by blast
qed


theorem make_approved_stops_at_unavailable_witness:
  "\<exists>d'. make_approved ''SO-0001'' approval_db = Inr (''Approved Success'', d')
      \<and> map child_status (get_all_items d' ''SO-0001'') = [''Approved'', ''Pending'', ''Pending'']
      \<and> map_option item_status (items d' ''BED-01'') = Some ''Reserved''
      \<and> map_option item_status (items d' ''BED-03'') = Some ''Available''"
proof -
  have h1: "get_all_items approval_db ''SO-0001'' = [row1] @ row2 # [row3]"
    by (simp add: get_all_items_def approval_db_def db0_def row1_def row2_def row3_def line0_def)
  have h2: "distinct (map name (order_items approval_db))"
    by (simp add: approval_db_def db0_def row1_def row2_def row3_def line0_def)
  have h3: "distinct (map item_code [row1])" by simp
  have h4: "\<forall>x \<in> set [row1]. \<exists>i. items approval_db (item_code x) = Some i
               \<and> item_status i = ''Available''"
    by (simp add: approval_db_def db0_def row1_def line0_def item0_def)
  have h5: "items approval_db (item_code row2) = Some (item0 \<lparr> item_status := ''Rented Out'' \<rparr>)"
    by (simp add: approval_db_def db0_def row2_def line0_def)
  have h6: "item_status (item0 \<lparr> item_status := ''Rented Out'' \<rparr>) \<noteq> ''Available''" by simp
  have h7: "orders approval_db ''SO-0001'' = Some (order0 \<lparr> status := ''Pending'' \<rparr>)"
    by (simp add: approval_db_def db0_def)
  from make_approved_stops_at_unavailable [OF h1 h2 h3 h4 h5 h6 h7]
  obtain d' where r: "make_approved ''SO-0001'' approval_db = Inr (''Approved Success'', d')"
    by blast
  have "approve_loop ''SO-0001'' [row1, row2, row3] approval_db = Inr d'"
    using r h1 by (simp add: make_approved_def split: sum.splits)
  then have d': "d' = approval_db\<lparr>items := (items approval_db)(''BED-01'' \<mapsto> item0\<lparr>item_status := ''Reserved''\<rparr>),
        order_items := [row1\<lparr>child_status := ''Approved''\<rparr>, row2, row3],
        orders := (orders approval_db)(''SO-0001'' \<mapsto> order0\<lparr>status := ''Approved''\<rparr>)\<rparr>"
    by (simp add: approval_db_def db0_def row1_def row2_def row3_def line0_def item0_def)
  show ?thesis
    unfolding r d'
    by (simp add: get_all_items_def approval_db_def db0_def row1_def row2_def row3_def line0_def item0_def)
qed

end
